theory Spec2Isabelle
  imports Complex_Main "HOL-Library.Sublist" "HOL-Library.Log_Nat"
begin

section \<open>Constants of the yard\<close>

text \<open>
  Embedding of \<^verbatim>\<open>rfidSimulator.py\<close>. Python integers are \<^typ>\<open>int\<close>, strings are
  \<^typ>\<open>string\<close>; the three accented status strings are spelled with their code points
  (all below 256). Positions, ranges and fuel levels are Python integers, as every value the
  program creates is (integer constants and \<^verbatim>\<open>random.randint\<close>); floating-point positions,
  which only a caller passing floating-point deltas to \<^verbatim>\<open>move\<close> could produce, are not
  part of the embedding. Every call of \<^verbatim>\<open>datetime.now()\<close> is an explicit argument: the
  value the clock returned at that call. Exceptions are values of the type \<open>error\<close>. The
  drawing code (matplotlib figure, axes, artists) is not part of the embedding.
\<close>

datatype error = TypeError | OverflowError

definition PATIO_WIDTH :: int where "PATIO_WIDTH = 100"
definition PATIO_HEIGHT :: int where "PATIO_HEIGHT = 80"

record area =
  area_x :: int
  area_y :: int
  area_width :: int
  area_height :: int
  area_color :: string

definition entrada :: area where
  "entrada = \<lparr>area_x = 0, area_y = 35, area_width = 10, area_height = 10, area_color = ''lightblue''\<rparr>"
definition saida :: area where
  "saida = \<lparr>area_x = 90, area_y = 35, area_width = 10, area_height = 10, area_color = ''lightgreen''\<rparr>"
definition estacionamento :: area where
  "estacionamento = \<lparr>area_x = 20, area_y = 10, area_width = 60, area_height = 60, area_color = ''lightgray''\<rparr>"
definition manutencao :: area where
  "manutencao = \<lparr>area_x = 20, area_y = 70, area_width = 30, area_height = 10, area_color = ''lightyellow''\<rparr>"

definition AREAS :: "(string \<times> area) list" where
  "AREAS = [(''entrada'', entrada), (''saida'', saida),
            (''estacionamento'', estacionamento), (''manutencao'', manutencao)]"

definition MOTO_MODELS :: "string list" where
  "MOTO_MODELS = [''Sport 110i'', ''CG 160'', ''Factor 125'', ''Biz 125'', ''NMax 160'', ''PCX 150'']"

text \<open>The status strings \<^verbatim>\<open>'disponivel'\<close> (accented i, U+00ED), \<^verbatim>\<open>'reservada'\<close> and
  \<^verbatim>\<open>'em manutencao'\<close> (c with cedilla U+00E7, a with tilde U+00E3).\<close>

definition disponivel :: string where
  "disponivel = ''dispon'' @ [CHR 0xED] @ ''vel''"
definition reservada :: string where
  "reservada = ''reservada''"
definition em_manutencao :: string where
  "em_manutencao = ''em manuten'' @ [CHR 0xE7, CHR 0xE3] @ ''o''"

text \<open>The list literal of \<^verbatim>\<open>Moto.__init__\<close> from which the status is chosen.\<close>

definition STATUS_CHOICES :: "string list" where
  "STATUS_CHOICES = [disponivel, reservada, em_manutencao]"

section \<open>Clock and random source\<close>

text \<open>
  A \<^verbatim>\<open>datetime\<close> is its number of microseconds since 0001-01-01 00:00:00, the least
  datetime; the greatest, 9999-12-31 23:59:59.999999, is \<open>DATETIME_MAX\<close>. A
  \<^verbatim>\<open>timedelta\<close> is a number of microseconds, too.
\<close>

type_synonym datetime = int

definition DATETIME_MAX :: datetime where
  "DATETIME_MAX = 3652059 * 86400 * 1000000 - 1"

text \<open>\<^verbatim>\<open>timedelta(days=d)\<close>, called by the constructor with \<open>d\<close> from 0 to 90.\<close>

definition timedelta_days :: "int \<Rightarrow> int" where
  "timedelta_days d = d * 86400000000"

text \<open>\<^verbatim>\<open>timedelta(seconds=s)\<close> for an integer \<open>s\<close>: the constructor raises
  \<^verbatim>\<open>OverflowError\<close> unless the number of whole days is between -999999999 and
  999999999.\<close>

definition timedelta_seconds :: "int \<Rightarrow> error + int" where
  "timedelta_seconds s =
     (if - 999999999 \<le> s div 86400 \<and> s div 86400 \<le> 999999999 then Inr (s * 1000000)
      else Inl OverflowError)"

text \<open>\<^verbatim>\<open>t - delta\<close> for a datetime and a timedelta: \<^verbatim>\<open>OverflowError\<close> when the result
  is not a datetime.\<close>

definition datetime_sub :: "datetime \<Rightarrow> int \<Rightarrow> error + datetime" where
  "datetime_sub t delta =
     (if 0 \<le> t - delta \<and> t - delta \<le> DATETIME_MAX then Inr (t - delta) else Inl OverflowError)"

text \<open>
  \<^verbatim>\<open>random.randint(a, b)\<close> and \<^verbatim>\<open>random.choice(xs)\<close>, as functions of the raw number
  \<open>r\<close> the generator produced at that call. At every call site of the program
  \<open>a \<le> b\<close> and \<open>xs\<close> is a non-empty literal.
\<close>

definition randint :: "int \<Rightarrow> int \<Rightarrow> nat \<Rightarrow> int" where
  "randint a b r = a + int r mod (b - a + 1)"

definition choice :: "'a list \<Rightarrow> nat \<Rightarrow> 'a" where
  "choice xs r = xs ! (r mod length xs)"

section \<open>Class Moto\<close>

record snapshot =
  snap_timestamp :: datetime
  snap_x :: int
  snap_y :: int
  snap_status :: string
  snap_fuel_level :: int

record moto =
  moto_id :: string
  model :: string
  status :: string
  fuel_level :: int
  last_maintenance :: datetime
  moto_x :: int
  moto_y :: int
  movement_history :: "snapshot list"
  moto_color :: string

definition update_color :: "moto \<Rightarrow> moto" where
  "update_color self =
     (if status self = disponivel then self\<lparr>moto_color := ''green''\<rparr>
      else if status self = reservada then self\<lparr>moto_color := ''blue''\<rparr>
      else self\<lparr>moto_color := ''orange''\<rparr>)"

definition record_position :: "moto \<Rightarrow> datetime \<Rightarrow> moto" where
  "record_position self now =
     self\<lparr>movement_history := movement_history self @
       [\<lparr>snap_timestamp = now, snap_x = moto_x self, snap_y = moto_y self,
         snap_status = status self, snap_fuel_level = fuel_level self\<rparr>]\<rparr>"

definition move :: "moto \<Rightarrow> int \<Rightarrow> int \<Rightarrow> datetime \<Rightarrow> moto" where
  "move self dx dy now =
     (let self = self\<lparr>moto_x := moto_x self + dx\<rparr>;
          self = self\<lparr>moto_y := moto_y self + dy\<rparr>;
          self = self\<lparr>moto_x := max 0 (min (moto_x self) PATIO_WIDTH)\<rparr>;
          self = self\<lparr>moto_y := max 0 (min (moto_y self) PATIO_HEIGHT)\<rparr>
      in record_position self now)"

definition update_status :: "moto \<Rightarrow> string \<Rightarrow> datetime \<Rightarrow> moto" where
  "update_status self new_status now =
     record_position (update_color (self\<lparr>status := new_status\<rparr>)) now"

definition update_fuel :: "moto \<Rightarrow> int \<Rightarrow> datetime \<Rightarrow> moto" where
  "update_fuel self amount now =
     record_position (self\<lparr>fuel_level := max 0 (min 100 (fuel_level self + amount))\<rparr>) now"

text \<open>\<^verbatim>\<open>perform_maintenance\<close> reads the clock twice: \<open>now1\<close> for the maintenance date,
  \<open>now2\<close> inside \<^verbatim>\<open>record_position\<close>.\<close>

definition perform_maintenance :: "moto \<Rightarrow> datetime \<Rightarrow> datetime \<Rightarrow> moto" where
  "perform_maintenance self now1 now2 =
     (let self = self\<lparr>last_maintenance := now1\<rparr>;
          self = self\<lparr>fuel_level := 100\<rparr>
      in update_status self disponivel now2)"

text \<open>
  The constructor. \<open>moto_id_arg\<close> is the optional argument (\<^verbatim>\<open>None\<close> and the empty
  string are both falsy), \<open>uuid8\<close> the first eight characters of a fresh UUID, \<open>rnd k\<close>
  the raw number behind the \<open>k\<close>-th call of the random module, \<open>now1\<close> and \<open>now2\<close> the two
  clock readings. The colour attribute does not exist before \<^verbatim>\<open>update_color\<close> runs; the
  record holds the empty string until then. The clock reads a current date, so that going
  back at most 90 days stays within the datetimes.
\<close>

definition Moto_init :: "string option \<Rightarrow> string \<Rightarrow> (nat \<Rightarrow> nat) \<Rightarrow> datetime \<Rightarrow> datetime \<Rightarrow> moto" where
  "Moto_init moto_id_arg uuid8 rnd now1 now2 =
     (let ident = (case moto_id_arg of None \<Rightarrow> uuid8 | Some s \<Rightarrow> if s \<noteq> [] then s else uuid8);
          mdl = choice MOTO_MODELS (rnd 0);
          st = choice STATUS_CHOICES (rnd 1);
          fuel = randint 10 100 (rnd 2);
          lm = now1 - timedelta_days (randint 0 90 (rnd 3));
          px = (if st = em_manutencao
                then area_x manutencao + randint 5 (area_width manutencao - 5) (rnd 4)
                else area_x estacionamento + randint 5 (area_width estacionamento - 5) (rnd 4));
          py = (if st = em_manutencao
                then area_y manutencao + randint 2 (area_height manutencao - 2) (rnd 5)
                else area_y estacionamento + randint 5 (area_height estacionamento - 5) (rnd 5));
          self = \<lparr>moto_id = ident, model = mdl, status = st, fuel_level = fuel,
                  last_maintenance = lm, moto_x = px, moto_y = py,
                  movement_history = [], moto_color = []\<rparr>
      in update_color (record_position self now2))"

section \<open>Class RFIDReader\<close>

record detection =
  det_timestamp :: datetime
  det_moto_id :: string
  det_moto_model :: string
  det_moto_status :: string
  det_moto_x :: int
  det_moto_y :: int
  det_distance :: real

record reader =
  reader_id :: int
  reader_x :: int
  reader_y :: int
  detection_range :: int
  reader_color :: string
  reader_name :: "string option"
  detections :: "detection list"

definition RFIDReader_init :: "int \<Rightarrow> int \<Rightarrow> int \<Rightarrow> int \<Rightarrow> string \<Rightarrow> string option \<Rightarrow> reader" where
  "RFIDReader_init rid x y rng color name =
     \<lparr>reader_id = rid, reader_x = x, reader_y = y, detection_range = rng,
      reader_color = color, reader_name = name, detections = []\<rparr>"

subsection \<open>The square root of NumPy\<close>

text \<open>
  \<^verbatim>\<open>np.sqrt\<close> is applied to a Python integer \<open>k\<close>, a sum of two squares. Below \<open>2^64\<close>
  NumPy holds \<open>k\<close> in a 64-bit integer, converts it to a double (to nearest, ties to even)
  and takes the correctly rounded square root of the double; from \<open>2^64\<close> on the integer
  fits no NumPy integer type and the call raises \<^verbatim>\<open>TypeError\<close>. A double is modelled by
  the real number it denotes.

  \<open>float64_of_int k\<close> is the double nearest to \<open>k\<close> (an integer), for \<open>0 \<le> k < 2^64\<close>.
\<close>

definition float64_of_int :: "int \<Rightarrow> int" where
  "float64_of_int k =
     (if k < 2 ^ 53 then k
      else (let shift = nat (bitlen k - 53);
                q = k div 2 ^ shift;
                r = k mod 2 ^ shift;
                half = 2 ^ (shift - 1)
            in (if half < r \<or> (r = half \<and> odd q) then q + 1 else q) * 2 ^ shift))"

text \<open>
  \<open>float64_sqrt K\<close> is the double nearest to the square root of \<open>K\<close>, for an integer
  \<open>0 \<le> K \<le> 2^64\<close>. With \<open>2^j \<le> sqrt K < 2^(j+1)\<close> the doubles of that binade are the
  multiples of \<open>2^(j-52)\<close>, so the result is \<open>m / 2^(52-j)\<close> for the integer \<open>m\<close> nearest to
  \<open>sqrt K * 2^(52-j) = sqrt (K * 4^(52-j))\<close>; no tie can occur.
\<close>

definition float64_sqrt :: "int \<Rightarrow> real" where
  "float64_sqrt K =
     (if K \<le> 0 then 0
      else (let j = nat ((bitlen K - 1) div 2);
                scaled = K * 4 ^ (52 - j);
                s = \<lfloor>sqrt (real_of_int scaled)\<rfloor>;
                m = (if s * s + s < scaled then s + 1 else s)
            in real_of_int m / 2 ^ (52 - j)))"

definition np_sqrt :: "int \<Rightarrow> error + real" where
  "np_sqrt k = (if k < 2 ^ 64 then Inr (float64_sqrt (float64_of_int k)) else Inl TypeError)"

subsection \<open>Detection\<close>

text \<open>The expression \<^verbatim>\<open>np.sqrt((self.x - moto.x)**2 + (self.y - moto.y)**2)\<close>.\<close>

definition distance :: "reader \<Rightarrow> moto \<Rightarrow> error + real" where
  "distance self moto =
     np_sqrt ((reader_x self - moto_x moto)\<^sup>2 + (reader_y self - moto_y moto)\<^sup>2)"

definition record_detection :: "reader \<Rightarrow> moto \<Rightarrow> datetime \<Rightarrow> error + reader" where
  "record_detection self moto now =
     (case distance self moto of
        Inl e \<Rightarrow> Inl e
      | Inr d \<Rightarrow>
          Inr (self\<lparr>detections := detections self @
            [\<lparr>det_timestamp = now, det_moto_id = moto_id moto, det_moto_model = model moto,
              det_moto_status = status moto, det_moto_x = moto_x moto, det_moto_y = moto_y moto,
              det_distance = d\<rparr>]\<rparr>))"

text \<open>
  The loop of \<^verbatim>\<open>detect_motos\<close>, with its two pieces of state: the list \<open>detected\<close> and the
  reader. \<open>clk i\<close> is the clock reading of the \<open>i\<close>-th detection recorded in this call
  (one reading per call of \<^verbatim>\<open>record_detection\<close>). The result is the returned list or the
  exception raised, and the reader as the call leaves it: an exception ends the loop and
  keeps what was appended to the log before.

  The test \<^verbatim>\<open>distance <= self.range\<close> compares the double with the integer range as
  numbers. NumPy converts the range to a double first; for every range that a double can
  hold (of magnitude below \<open>2^1024\<close>) this gives the same result, the distance being below
  \<open>2^33\<close>. Larger ranges are outside the embedding.
\<close>

fun detect_loop :: "(nat \<Rightarrow> datetime) \<Rightarrow> reader \<Rightarrow> moto list \<Rightarrow> moto list
                     \<Rightarrow> (error + moto list) \<times> reader" where
  "detect_loop clk self detected [] = (Inr detected, self)"
| "detect_loop clk self detected (moto # rest) =
     (case distance self moto of
        Inl e \<Rightarrow> (Inl e, self)
      | Inr d \<Rightarrow>
          if d \<le> real_of_int (detection_range self)
          then (case record_detection self moto (clk (length detected)) of
                  Inl e \<Rightarrow> (Inl e, self)
                | Inr self' \<Rightarrow> detect_loop clk self' (detected @ [moto]) rest)
          else detect_loop clk self detected rest)"

definition detect_motos :: "reader \<Rightarrow> moto list \<Rightarrow> (nat \<Rightarrow> datetime)
                              \<Rightarrow> (error + moto list) \<times> reader" where
  "detect_motos self motos clk = detect_loop clk self [] motos"

text \<open>\<^verbatim>\<open>get_recent_detections\<close>: the list, or the \<^verbatim>\<open>OverflowError\<close> of the timedelta
  constructor or of the subtraction. The reader is not written.\<close>

definition get_recent_detections :: "reader \<Rightarrow> int \<Rightarrow> datetime \<Rightarrow> error + detection list" where
  "get_recent_detections self seconds now =
     (case timedelta_seconds seconds of
        Inl e \<Rightarrow> Inl e
      | Inr delta \<Rightarrow>
          (case datetime_sub now delta of
             Inl e \<Rightarrow> Inl e
           | Inr cutoff_time \<Rightarrow> Inr [d \<leftarrow> detections self. det_timestamp d > cutoff_time]))"

section \<open>Class MottuPatioSimulation\<close>

record reader_config =
  cfg_id :: int
  cfg_x :: int
  cfg_y :: int
  cfg_range :: int
  cfg_color :: string
  cfg_name :: "string option"

definition READERS :: "reader_config list" where
  "READERS =
     [\<lparr>cfg_id = 1, cfg_x = 5, cfg_y = 40, cfg_range = 15, cfg_color = ''red'', cfg_name = None\<rparr>,
      \<lparr>cfg_id = 2, cfg_x = 95, cfg_y = 40, cfg_range = 15, cfg_color = ''green'', cfg_name = None\<rparr>,
      \<lparr>cfg_id = 3, cfg_x = 30, cfg_y = 30, cfg_range = 20, cfg_color = ''blue'', cfg_name = Some ''Setor A''\<rparr>,
      \<lparr>cfg_id = 4, cfg_x = 60, cfg_y = 30, cfg_range = 20, cfg_color = ''blue'', cfg_name = Some ''Setor B''\<rparr>,
      \<lparr>cfg_id = 5, cfg_x = 30, cfg_y = 60, cfg_range = 20, cfg_color = ''blue'', cfg_name = Some ''Setor C''\<rparr>,
      \<lparr>cfg_id = 6, cfg_x = 60, cfg_y = 60, cfg_range = 20, cfg_color = ''blue'', cfg_name = Some ''Setor D''\<rparr>,
      \<lparr>cfg_id = 7, cfg_x = 35, cfg_y = 75, cfg_range = 15, cfg_color = ''orange'', cfg_name = None\<rparr>]"

record simulation =
  motos :: "moto list"
  readers :: "reader list"
  events_log :: "unit list"
  current_time :: datetime

text \<open>
  The constructor builds \<open>num_motos\<close> entities with \<^verbatim>\<open>Moto()\<close> (no identifier given), then
  the readers of the table, then reads the clock. \<open>uuids i\<close> and \<open>rnd i\<close> are the UUID prefix and
  the random numbers of the \<open>i\<close>-th entity; \<open>clk\<close> lists the clock readings in order, two for
  each entity and one for \<^verbatim>\<open>current_time\<close>.
\<close>

definition MottuPatioSimulation_init ::
    "int \<Rightarrow> (nat \<Rightarrow> string) \<Rightarrow> (nat \<Rightarrow> nat \<Rightarrow> nat) \<Rightarrow> (nat \<Rightarrow> datetime) \<Rightarrow> simulation" where
  "MottuPatioSimulation_init num_motos uuids rnd clk =
     \<lparr>motos = map (\<lambda>i. Moto_init None (uuids i) (rnd i) (clk (2 * i)) (clk (2 * i + 1)))
                 [0 ..< nat num_motos],
      readers = map (\<lambda>r. RFIDReader_init (cfg_id r) (cfg_x r) (cfg_y r) (cfg_range r)
                                            (cfg_color r) (cfg_name r)) READERS,
      events_log = [],
      current_time = clk (2 * nat num_motos)\<rparr>"

record tick_detection =
  td_reader_id :: int
  td_moto_id :: string
  td_timestamp :: datetime

record status_summary =
  sum_total :: int
  sum_disponiveis :: int
  sum_reservadas :: int
  sum_em_manutencao :: int
  sum_deteccoes :: int

text \<open>
  The loop over the readers in \<^verbatim>\<open>update_visualization\<close>. \<open>k\<close> counts the clock readings
  made so far in this frame: a reader that detects \<open>n\<close> entities reads the clock \<open>n\<close> times
  inside \<^verbatim>\<open>detect_motos\<close> and \<open>n\<close> more times in the list comprehension that extends
  \<^verbatim>\<open>all_detections\<close>. An exception of \<^verbatim>\<open>detect_motos\<close> ends the loop; the readers
  visited before keep their new events.
\<close>

fun detection_pass ::
    "(nat \<Rightarrow> datetime) \<Rightarrow> nat \<Rightarrow> moto list \<Rightarrow> reader list \<Rightarrow> tick_detection list
       \<Rightarrow> reader list \<times> (error + tick_detection list)" where
  "detection_pass clk k ms [] all_detections = ([], Inr all_detections)"
| "detection_pass clk k ms (r # rs) all_detections =
     (case detect_motos r ms (\<lambda>i. clk (k + i)) of
        (Inl e, r') \<Rightarrow> (r' # rs, Inl e)
      | (Inr detected, r') \<Rightarrow>
          (let n = length detected;
               new = map (\<lambda>(i, m). \<lparr>td_reader_id = reader_id r', td_moto_id = moto_id m,
                                      td_timestamp = clk (k + n + i)\<rparr>) (enumerate 0 detected);
               (rs', result) = detection_pass clk (k + 2 * n) ms rs (all_detections @ new)
           in (r' # rs', result)))"

text \<open>One frame. The result is the simulation after the frame and the numbers written into
  the status text, or the exception that ended the frame; the artists are not modelled. The
  call of \<^verbatim>\<open>simulate_movements\<close> is commented out in the source, so the frame does not
  make it.\<close>

definition update_visualization :: "simulation \<Rightarrow> int \<Rightarrow> (nat \<Rightarrow> datetime)
                                      \<Rightarrow> simulation \<times> (error + status_summary)" where
  "update_visualization self frame clk =
     (let (rs', result) = detection_pass clk 0 (motos self) (readers self) [];
          self = self\<lparr>readers := rs'\<rparr>
      in (self,
          case result of
            Inl e \<Rightarrow> Inl e
          | Inr all_detections \<Rightarrow>
              Inr \<lparr>sum_total = int (length (motos self)),
                   sum_disponiveis = sum_list [1. moto \<leftarrow> motos self, status moto = disponivel],
                   sum_reservadas = sum_list [1. moto \<leftarrow> motos self, status moto = reservada],
                   sum_em_manutencao = sum_list [1. moto \<leftarrow> motos self, status moto = em_manutencao],
                   sum_deteccoes = int (length all_detections)\<rparr>))"

definition simulate_movements :: "simulation \<Rightarrow> simulation" where
  "simulate_movements self = self"

text \<open>Dictionary keys of the report: \<^verbatim>\<open>'critico (<20%)'\<close> (accented i), \<^verbatim>\<open>'baixo (20-50%)'\<close>,
  \<^verbatim>\<open>'medio (50-80%)'\<close> (accented e, U+00E9) and \<^verbatim>\<open>'alto (>80%)'\<close>.\<close>

definition key_critico :: string where
  "key_critico = ''cr'' @ [CHR 0xED] @ ''tico (<20%)''"
definition key_baixo :: string where
  "key_baixo = ''baixo (20-50%)''"
definition key_medio :: string where
  "key_medio = ''m'' @ [CHR 0xE9] @ ''dio (50-80%)''"
definition key_alto :: string where
  "key_alto = ''alto (>80%)''"

record report =
  total_motos :: int
  status_counts :: "(string \<times> int) list"
  fuel_levels :: "(string \<times> int) list"
  reader_detections :: "(int \<times> int) list"

text \<open>The dictionaries are association lists in insertion order. The comprehension that
  builds \<^verbatim>\<open>reader_detections\<close> keeps, for a repeated key, the last value at the position
  of the first.\<close>

fun dict_set :: "('k \<times> 'v) list \<Rightarrow> 'k \<Rightarrow> 'v \<Rightarrow> ('k \<times> 'v) list" where
  "dict_set [] k v = [(k, v)]"
| "dict_set ((k', v') # d) k v = (if k' = k then (k', v) # d else (k', v') # dict_set d k v)"

definition generate_report :: "simulation \<Rightarrow> report" where
  "generate_report self =
     \<lparr>total_motos = int (length (motos self)),
      status_counts =
        [(disponivel, sum_list [1. moto \<leftarrow> motos self, status moto = disponivel]),
         (reservada, sum_list [1. moto \<leftarrow> motos self, status moto = reservada]),
         (em_manutencao, sum_list [1. moto \<leftarrow> motos self, status moto = em_manutencao])],
      fuel_levels =
        [(key_critico, sum_list [1. moto \<leftarrow> motos self, fuel_level moto < 20]),
         (key_baixo, sum_list [1. moto \<leftarrow> motos self, 20 \<le> fuel_level moto \<and> fuel_level moto < 50]),
         (key_medio, sum_list [1. moto \<leftarrow> motos self, 50 \<le> fuel_level moto \<and> fuel_level moto < 80]),
         (key_alto, sum_list [1. moto \<leftarrow> motos self, fuel_level moto \<ge> 80])],
      reader_detections =
        foldl (\<lambda>d reader. dict_set d (reader_id reader) (int (length (detections reader))))
              [] (readers self)\<rparr>"

section \<open>Notions used in the statements\<close>

text \<open>
  The integer under the square root; whether \<^verbatim>\<open>np.sqrt\<close> returns on it; the double it
  then returns; the test of \<^verbatim>\<open>detect_motos\<close>; and the dictionary that
  \<^verbatim>\<open>record_detection\<close> appends.
\<close>

definition squared_distance :: "reader \<Rightarrow> moto \<Rightarrow> int" where
  "squared_distance self moto = (reader_x self - moto_x moto)\<^sup>2 + (reader_y self - moto_y moto)\<^sup>2"

definition sqrt_defined :: "reader \<Rightarrow> moto \<Rightarrow> bool" where
  "sqrt_defined self moto \<longleftrightarrow> squared_distance self moto < 2 ^ 64"

definition distance_value :: "reader \<Rightarrow> moto \<Rightarrow> real" where
  "distance_value self moto = float64_sqrt (float64_of_int (squared_distance self moto))"

definition in_range :: "reader \<Rightarrow> moto \<Rightarrow> bool" where
  "in_range self moto \<longleftrightarrow>
     (case distance self moto of
        Inl e \<Rightarrow> False
      | Inr d \<Rightarrow> d \<le> real_of_int (detection_range self))"

definition detection_event :: "reader \<Rightarrow> moto \<Rightarrow> datetime \<Rightarrow> detection" where
  "detection_event self moto now =
     \<lparr>det_timestamp = now, det_moto_id = moto_id moto, det_moto_model = model moto,
      det_moto_status = status moto, det_moto_x = moto_x moto, det_moto_y = moto_y moto,
      det_distance = distance_value self moto\<rparr>"

text \<open>The entities the loop of \<^verbatim>\<open>detect_motos\<close> has appended to \<open>detected\<close> when it ends,
  by returning or by raising: the entities in range among those before the first one on which
  \<^verbatim>\<open>np.sqrt\<close> raises.\<close>

definition detected_entities :: "reader \<Rightarrow> moto list \<Rightarrow> moto list" where
  "detected_entities self ms = filter (in_range self) (takeWhile (sqrt_defined self) ms)"

text \<open>The window for which \<^verbatim>\<open>datetime.now() - timedelta(seconds=seconds)\<close> is a datetime.\<close>

definition cutoff_representable :: "int \<Rightarrow> datetime \<Rightarrow> bool" where
  "cutoff_representable seconds now \<longleftrightarrow>
     - 999999999 \<le> seconds div 86400 \<and> seconds div 86400 \<le> 999999999
     \<and> 0 \<le> now - seconds * 1000000 \<and> now - seconds * 1000000 \<le> DATETIME_MAX"

text \<open>Concrete inputs: the first reader of the table, a reader far from the yard whose range
  is its distance from the corner of the yard, an entity in maintenance with fuel 10 at a
  given position, a clock that starts at 1000 and advances by one at each reading, and the
  datetime 2026-11-03 12:00:00.\<close>

definition example_reader :: reader where
  "example_reader = RFIDReader_init 1 5 40 15 ''red'' None"


definition example_now :: datetime where
  "example_now = 63929304000000000"

definition example_moto :: "int \<Rightarrow> int \<Rightarrow> moto" where
  "example_moto px py =
     \<lparr>moto_id = ''a1b2c3d4'', model = ''CG 160'', status = em_manutencao, fuel_level = 10,
      last_maintenance = 0, moto_x = px, moto_y = py, movement_history = [], moto_color = ''orange''\<rparr>"

definition example_clock :: "nat \<Rightarrow> datetime" where
  "example_clock i = 1000 + int i"

text \<open>Every event of the log was recorded within the range of the reader.\<close>

definition log_in_range :: "reader \<Rightarrow> bool" where
  "log_in_range self \<longleftrightarrow>
     list_all (\<lambda>d. det_distance d \<le> real_of_int (detection_range self)) (detections self)"

text \<open>The dictionary \<^verbatim>\<open>record_position\<close> appends for an entity in a given state.\<close>

definition snapshot_of :: "moto \<Rightarrow> datetime \<Rightarrow> snapshot" where
  "snapshot_of m now =
     \<lparr>snap_timestamp = now, snap_x = moto_x m, snap_y = moto_y m,
      snap_status = status m, snap_fuel_level = fuel_level m\<rparr>"

definition in_yard :: "moto \<Rightarrow> bool" where
  "in_yard m \<longleftrightarrow> 0 \<le> moto_x m \<and> moto_x m \<le> PATIO_WIDTH \<and> 0 \<le> moto_y m \<and> moto_y m \<le> PATIO_HEIGHT"

text \<open>
  The states of a simulation: the state the constructor builds, and every state reached from
  it by a frame or by an operation of an entity of the collection. \<^verbatim>\<open>update_status\<close> is
  given one of the three statuses of the program, as the program itself does (its only call,
  in \<^verbatim>\<open>perform_maintenance\<close>, passes the first of them).
\<close>

inductive sim_state :: "simulation \<Rightarrow> bool" where
  created: "sim_state (MottuPatioSimulation_init num_motos uuids rnd clk)"
| frame: "sim_state s \<Longrightarrow> sim_state (fst (update_visualization s n clk))"
| moved: "sim_state s \<Longrightarrow> i < length (motos s) \<Longrightarrow>
     sim_state (s\<lparr>motos := (motos s)[i := move (motos s ! i) dx dy now]\<rparr>)"
| refuelled: "sim_state s \<Longrightarrow> i < length (motos s) \<Longrightarrow>
     sim_state (s\<lparr>motos := (motos s)[i := update_fuel (motos s ! i) amount now]\<rparr>)"
| serviced: "sim_state s \<Longrightarrow> i < length (motos s) \<Longrightarrow>
     sim_state (s\<lparr>motos := (motos s)[i := perform_maintenance (motos s ! i) now1 now2]\<rparr>)"
| status_set: "sim_state s \<Longrightarrow> i < length (motos s) \<Longrightarrow> new_status \<in> set STATUS_CHOICES \<Longrightarrow>
     sim_state (s\<lparr>motos := (motos s)[i := update_status (motos s ! i) new_status now]\<rparr>)"

definition example_simulation :: simulation where
  "example_simulation =
     MottuPatioSimulation_init 2 (\<lambda>i. ''0a1b2c3d'') (\<lambda>i k. i + k) example_clock"

text \<open>The same simulation after its first entity took 50 units of fuel.\<close>

definition refuelled_simulation :: simulation where
  "refuelled_simulation =
     example_simulation\<lparr>motos :=
       (motos example_simulation)[0 := update_fuel (motos example_simulation ! 0) 50 2000]\<rparr>"

section \<open>Auxiliary facts\<close>

lemma randint_bounds: "a \<le> b \<Longrightarrow> a \<le> randint a b r \<and> randint a b r \<le> b"
proof -
  assume ab: "a \<le> b"
  then have pos: "0 < b - a + 1" by simp
  have lo: "0 \<le> int r mod (b - a + 1)" by (rule pos_mod_sign [OF pos])
  have hi: "int r mod (b - a + 1) < b - a + 1" by (rule pos_mod_bound [OF pos])
  show ?thesis unfolding randint_def using lo hi by linarith
qed

lemma choice_in_set: "xs \<noteq> [] \<Longrightarrow> choice xs r \<in> set xs"
  by (simp add: choice_def)

lemma status_strings_distinct:
  "disponivel \<noteq> reservada" "disponivel \<noteq> em_manutencao" "reservada \<noteq> em_manutencao"
  by (simp_all add: disponivel_def reservada_def em_manutencao_def)

subsection \<open>The rounded square root\<close>

lemma floor_sqrt_bounds:
  fixes x :: int
  assumes "0 \<le> x" and "s = \<lfloor>sqrt (real_of_int x)\<rfloor>"
  shows "0 \<le> s \<and> s * s \<le> x \<and> x < (s + 1) * (s + 1)"
proof -
  have le: "real_of_int s \<le> sqrt (real_of_int x)" using assms(2) by simp
  have lt: "sqrt (real_of_int x) < real_of_int s + 1" using assms(2) by linarith
  have s0: "0 \<le> s" using assms by simp
  have "(real_of_int s)\<^sup>2 \<le> (sqrt (real_of_int x))\<^sup>2"
    using le s0 by (intro power_mono) simp_all
  then have "real_of_int (s * s) \<le> real_of_int x"
    using assms(1) by (simp add: power2_eq_square)
  then have a: "s * s \<le> x" by (simp only: of_int_le_iff)
  have "(sqrt (real_of_int x))\<^sup>2 < (real_of_int s + 1)\<^sup>2"
    using lt assms(1) by (intro power_strict_mono) simp_all
  then have "real_of_int x < real_of_int ((s + 1) * (s + 1))"
    using assms(1) by (simp add: power2_eq_square)
  then have b: "x < (s + 1) * (s + 1)" by (simp only: of_int_less_iff)
  from s0 a b show ?thesis by blast
qed

lemma square_plus_mono:
  fixes a b :: int
  assumes "0 \<le> a" "a \<le> b"
  shows "a * a + a \<le> b * b + b"
proof -
  have "a * a \<le> b * b" using assms by (intro mult_mono) simp_all
  then show ?thesis using assms by simp
qed

lemma nearest_le_iff:
  fixes s x N :: int
  assumes "0 \<le> s" "s * s \<le> x" "x < (s + 1) * (s + 1)" "0 \<le> N"
  shows "(if s * s + s < x then s + 1 else s) \<le> N \<longleftrightarrow> x \<le> N * N + N"
proof (cases "s * s + s < x")
  case True
  show ?thesis
  proof (cases "s + 1 \<le> N")
    case le: True
    have "(s + 1) * (s + 1) \<le> N * N" using le assms(1) by (intro mult_mono) simp_all
    then have "x \<le> N * N + N" using assms(3,4) by simp
    with True le show ?thesis by simp
  next
    case gt: False
    then have "N \<le> s" by simp
    then have "N * N + N \<le> s * s + s" using assms(4) by (rule square_plus_mono [rotated])
    with True gt show ?thesis by simp
  qed
next
  case False
  show ?thesis
  proof (cases "s \<le> N")
    case le: True
    have "s * s + s \<le> N * N + N" using assms(1) le by (rule square_plus_mono)
    with False le show ?thesis by simp
  next
    case gt: False
    then have "N + 1 \<le> s" by simp
    then have "(N + 1) * (N + 1) \<le> s * s" using assms(4) by (intro mult_mono) simp_all
    then have "N * N + N < x" using assms(2,4) by (simp add: algebra_simps)
    with False gt show ?thesis by simp
  qed
qed

lemma four_power: "(4::int) ^ e = 2 ^ e * 2 ^ e"
proof -
  have "(4::int) ^ e = (2 * 2) ^ e" by simp
  also have "\<dots> = 2 ^ e * 2 ^ e" by (rule power_mult_distrib)
  finally show ?thesis .
qed

lemma float64_sqrt_nonneg: "0 \<le> float64_sqrt K"
proof (cases "K \<le> 0")
  case True
  then show ?thesis by (simp add: float64_sqrt_def)
next
  case False
  define e where "e = 52 - nat ((bitlen K - 1) div 2)"
  define scaled where "scaled = K * 4 ^ e"
  define s where "s = \<lfloor>sqrt (real_of_int scaled)\<rfloor>"
  have "0 \<le> scaled" using False by (simp add: scaled_def)
  then have "0 \<le> s" using floor_sqrt_bounds [of scaled s] by (simp add: s_def)
  then have "0 \<le> (if s * s + s < scaled then s + 1 else s)" by simp
  then show ?thesis
    using False by (simp add: float64_sqrt_def Let_def e_def scaled_def s_def)
qed

lemma float64_sqrt_le_iff:
  assumes K: "0 < K" and r: "0 \<le> r"
  shows "float64_sqrt K \<le> real_of_int r \<longleftrightarrow>
           (K - r * r) * 2 ^ (52 - nat ((bitlen K - 1) div 2)) \<le> r"
proof -
  define e where "e = 52 - nat ((bitlen K - 1) div 2)"
  define scaled where "scaled = K * 4 ^ e"
  define s where "s = \<lfloor>sqrt (real_of_int scaled)\<rfloor>"
  define m where "m = (if s * s + s < scaled then s + 1 else s)"
  define p :: int where "p = 2 ^ e"
  have p: "0 < p" by (simp add: p_def)
  have scaled_p: "scaled = K * p * p"
    by (simp only: scaled_def p_def four_power mult.assoc)
  have v: "float64_sqrt K = real_of_int m / real_of_int p"
    using K by (simp add: float64_sqrt_def Let_def e_def scaled_def s_def m_def p_def)
  have "0 \<le> scaled" using K by (simp add: scaled_def)
  then have sb: "0 \<le> s \<and> s * s \<le> scaled \<and> scaled < (s + 1) * (s + 1)"
    using floor_sqrt_bounds [of scaled s] by (simp add: s_def)
  have N: "0 \<le> r * p" using r p by simp
  have "float64_sqrt K \<le> real_of_int r \<longleftrightarrow> real_of_int m \<le> real_of_int (r * p)"
    using p by (simp add: v pos_divide_le_eq)
  also have "\<dots> \<longleftrightarrow> m \<le> r * p" by (simp only: of_int_le_iff)
  also have "\<dots> \<longleftrightarrow> scaled \<le> (r * p) * (r * p) + r * p"
    unfolding m_def using sb N by (intro nearest_le_iff) simp_all
  also have "\<dots> \<longleftrightarrow> ((K - r * r) * p) * p \<le> r * p"
    by (simp add: scaled_p algebra_simps)
  also have "\<dots> \<longleftrightarrow> (K - r * r) * p \<le> r"
    using p by (simp only: mult_le_cancel_right) simp
  finally show ?thesis by (simp add: p_def e_def)
qed

lemma float64_sqrt_exact_test:
  assumes "0 \<le> K" "K < 2 ^ 52"
  shows "float64_sqrt K \<le> real_of_int r \<longleftrightarrow> 0 \<le> r \<and> K \<le> r * r"
proof (cases "0 \<le> r")
  case False
  then have "real_of_int r < 0" by simp
  with float64_sqrt_nonneg [of K] False show ?thesis by linarith
next
  case r: True
  show ?thesis
  proof (cases "K = 0")
    case True
    with r show ?thesis by (simp add: float64_sqrt_def)
  next
    case False
    with assms have K: "0 < K" by simp
    define j where "j = nat ((bitlen K - 1) div 2)"
    have "bitlen K \<le> 52" using assms(2) by (simp add: bitlen_le_iff_power)
    then have "j \<le> 25" by (simp add: j_def)
    then have e: "27 \<le> 52 - j" by simp
    have p: "(2::int) ^ 27 \<le> 2 ^ (52 - j)"
      using e by (intro power_increasing) simp_all
    note iff = float64_sqrt_le_iff [OF K r, folded j_def]
    show ?thesis
    proof (cases "K \<le> r * r")
      case True
      then have "(K - r * r) * 2 ^ (52 - j) \<le> 0"
        by (simp add: mult_le_0_iff)
      with r True iff show ?thesis by simp
    next
      case gt: False
      have "r < 2 ^ 26"
      proof (rule ccontr)
        assume "\<not> r < 2 ^ 26"
        then have "(2::int) ^ 26 \<le> r" by simp
        then have "(2::int) ^ 26 * 2 ^ 26 \<le> r * r" by (intro mult_mono) simp_all
        with gt assms(2) show False by simp
      qed
      moreover have "1 * (2::int) ^ (52 - j) \<le> (K - r * r) * 2 ^ (52 - j)"
        using gt by (intro mult_right_mono) simp_all
      then have "(2::int) ^ (52 - j) \<le> (K - r * r) * 2 ^ (52 - j)" by simp
      moreover have "(2::int) ^ 26 \<le> 2 ^ 27" by simp
      ultimately have "\<not> (K - r * r) * 2 ^ (52 - j) \<le> r" using p by linarith
      with gt iff show ?thesis by simp
    qed
  qed
qed

lemma float64_sqrt_square:
  assumes "0 \<le> n"
  shows "float64_sqrt (n * n) = real_of_int n"
proof (cases "n = 0")
  case True
  then show ?thesis by (simp add: float64_sqrt_def)
next
  case False
  with assms have n: "0 < n" by simp
  then have K: "0 < n * n" by simp
  define e where "e = 52 - nat ((bitlen (n * n) - 1) div 2)"
  define scaled where "scaled = n * n * 4 ^ e"
  define s where "s = \<lfloor>sqrt (real_of_int scaled)\<rfloor>"
  define m where "m = (if s * s + s < scaled then s + 1 else s)"
  define p :: int where "p = 2 ^ e"
  have p: "0 < p" by (simp add: p_def)
  have v: "float64_sqrt (n * n) = real_of_int m / real_of_int p"
    using K by (simp add: float64_sqrt_def Let_def e_def scaled_def s_def m_def p_def)
  have sc: "scaled = (n * p) * (n * p)"
    by (simp only: scaled_def p_def four_power) (simp add: algebra_simps)
  have "sqrt (real_of_int ((n * p) * (n * p))) = real_of_int (n * p)"
    using n p by (simp add: real_sqrt_mult)
  then have s: "s = n * p"
    by (simp only: s_def sc floor_of_int)
  have "0 \<le> s" using n p by (simp add: s)
  then have "\<not> s * s + s < scaled" by (simp add: sc s)
  then have "m = n * p" by (simp add: m_def s)
  then show ?thesis using p by (simp add: v)
qed

lemma float64_of_int_small: "k < 2 ^ 53 \<Longrightarrow> float64_of_int k = k"
  by (simp add: float64_of_int_def)

subsection \<open>The loop of the detection\<close>

lemma squared_distance_nonneg: "0 \<le> squared_distance self m"
  by (simp add: squared_distance_def)

lemma distance_eq:
  "distance self m = (if sqrt_defined self m then Inr (distance_value self m) else Inl TypeError)"
  by (simp add: distance_def np_sqrt_def sqrt_defined_def distance_value_def squared_distance_def)

lemma record_detection_eq:
  "sqrt_defined self m \<Longrightarrow>
     record_detection self m now = Inr (self\<lparr>detections := detections self @ [detection_event self m now]\<rparr>)"
  by (simp add: record_detection_def distance_eq detection_event_def)

lemma squared_distance_log_irrelevant [simp]:
  "squared_distance (self\<lparr>detections := l\<rparr>) = squared_distance self"
  by (simp add: squared_distance_def fun_eq_iff)

lemma sqrt_defined_log_irrelevant [simp]:
  "sqrt_defined (self\<lparr>detections := l\<rparr>) = sqrt_defined self"
  by (simp add: sqrt_defined_def fun_eq_iff)

lemma distance_value_log_irrelevant [simp]:
  "distance_value (self\<lparr>detections := l\<rparr>) = distance_value self"
  by (simp add: distance_value_def fun_eq_iff)

lemma distance_log_irrelevant [simp]:
  "distance (self\<lparr>detections := l\<rparr>) = distance self"
  by (simp add: distance_eq fun_eq_iff)

lemma in_range_log_irrelevant [simp]:
  "in_range (self\<lparr>detections := l\<rparr>) = in_range self"
  by (simp add: in_range_def fun_eq_iff split: sum.splits)

lemma detection_event_log_irrelevant [simp]:
  "detection_event (self\<lparr>detections := l\<rparr>) = detection_event self"
  by (simp add: detection_event_def fun_eq_iff)

lemma detected_entities_log_irrelevant [simp]:
  "detected_entities (self\<lparr>detections := l\<rparr>) = detected_entities self"
  by (simp add: detected_entities_def fun_eq_iff)

lemma in_range_iff:
  "in_range self m \<longleftrightarrow>
     sqrt_defined self m \<and> distance_value self m \<le> real_of_int (detection_range self)"
  by (simp add: in_range_def distance_eq)

lemma detected_entities_simps:
  "detected_entities self [] = []"
  "detected_entities self (m # ms) =
     (if sqrt_defined self m
      then (if in_range self m then m # detected_entities self ms else detected_entities self ms)
      else [])"
  by (simp_all add: detected_entities_def)

lemma detected_entities_defined:
  "list_all (sqrt_defined self) ms \<Longrightarrow> detected_entities self ms = filter (in_range self) ms"
  by (induction ms) (simp_all add: detected_entities_simps)

lemma detected_entities_subset: "set (detected_entities self ms) \<subseteq> set ms"
  unfolding detected_entities_def using set_takeWhileD by fastforce

lemma detect_loop_eq:
  "detect_loop clk self detected ms =
     ((if list_all (sqrt_defined self) ms then Inr (detected @ filter (in_range self) ms)
       else Inl TypeError),
      self\<lparr>detections := detections self @
         map (\<lambda>(i, m). detection_event self m (clk i))
             (enumerate (length detected) (detected_entities self ms))\<rparr>)"
proof (induction ms arbitrary: self detected)
  case Nil
  show ?case by (simp add: detected_entities_simps)
next
  case (Cons m ms)
  show ?case
  proof (cases "sqrt_defined self m")
    case False
    then show ?thesis by (simp add: distance_eq detected_entities_simps)
  next
    case defined: True
    show ?thesis
    proof (cases "in_range self m")
      case True
      then have le: "distance_value self m \<le> real_of_int (detection_range self)"
        by (simp add: in_range_iff)
      have "detect_loop clk self detected (m # ms) =
          detect_loop clk (self\<lparr>detections := detections self @
              [detection_event self m (clk (length detected))]\<rparr>) (detected @ [m]) ms"
        using defined le by (simp add: distance_eq record_detection_eq)
      also have "\<dots> =
         ((if list_all (sqrt_defined self) ms then Inr ((detected @ [m]) @ filter (in_range self) ms)
           else Inl TypeError),
          self\<lparr>detections := (detections self @ [detection_event self m (clk (length detected))]) @
             map (\<lambda>(i, m). detection_event self m (clk i))
                 (enumerate (Suc (length detected)) (detected_entities self ms))\<rparr>)"
        by (simp add: Cons.IH)
      finally show ?thesis using True defined by (simp add: detected_entities_simps)
    next
      case False
      then have "\<not> distance_value self m \<le> real_of_int (detection_range self)"
        using defined by (simp add: in_range_iff)
      then have "detect_loop clk self detected (m # ms) = detect_loop clk self detected ms"
        using defined by (simp add: distance_eq)
      then show ?thesis using False defined by (simp add: Cons.IH detected_entities_simps)
    qed
  qed
qed

lemma detect_motos_eq:
  "detect_motos self ms clk =
     ((if list_all (sqrt_defined self) ms then Inr (filter (in_range self) ms) else Inl TypeError),
      self\<lparr>detections := detections self @
         map (\<lambda>(i, m). detection_event self m (clk i)) (enumerate 0 (detected_entities self ms))\<rparr>)"
  by (simp add: detect_motos_def detect_loop_eq)

subsection \<open>The test on distances below \<open>2^26\<close>\<close>


lemma in_range_code:
  "squared_distance self m < 2 ^ 52 \<Longrightarrow>
     in_range self m \<longleftrightarrow>
       0 \<le> detection_range self \<and> squared_distance self m \<le> detection_range self * detection_range self"
  using float64_sqrt_exact_test [of "squared_distance self m" "detection_range self"]
  by (simp add: in_range_iff sqrt_defined_def distance_value_def float64_of_int_small
        squared_distance_nonneg)


lemma distance_value_square:
  "squared_distance self m = n * n \<Longrightarrow> 0 \<le> n \<Longrightarrow> n * n < 2 ^ 53 \<Longrightarrow>
     distance_value self m = real_of_int n"
  by (simp add: distance_value_def float64_of_int_small float64_sqrt_square)

section \<open>Detection\<close>

lemma example_in_range:
  "in_range example_reader (example_moto 5 40)"
  "\<not> in_range example_reader (example_moto 50 40)"
  "in_range example_reader (example_moto 20 40)"
  by (simp_all add: in_range_code squared_distance_def example_reader_def example_moto_def
        RFIDReader_init_def)

lemma example_sqrt_defined:
  "sqrt_defined example_reader (example_moto 5 40)"
  "sqrt_defined example_reader (example_moto 50 40)"
  "sqrt_defined example_reader (example_moto 20 40)"
  by (simp_all add: sqrt_defined_def squared_distance_def example_reader_def example_moto_def
        RFIDReader_init_def)

lemma example_distance_values:
  "distance_value example_reader (example_moto 5 40) = 0"
  "distance_value example_reader (example_moto 20 40) = 15"
  using distance_value_square [of example_reader "example_moto 5 40" 0]
        distance_value_square [of example_reader "example_moto 20 40" 15]
  by (simp_all add: squared_distance_def example_reader_def example_moto_def RFIDReader_init_def)







lemma detect_motos_twice:
  "detect_motos (snd (detect_motos self ms clk)) ms clk' =
     (fst (detect_motos self ms clk),
      self\<lparr>detections := detections self @
         map (\<lambda>(i, m). detection_event self m (clk i)) (enumerate 0 (detected_entities self ms)) @
         map (\<lambda>(i, m). detection_event self m (clk' i)) (enumerate 0 (detected_entities self ms))\<rparr>)"
  by (simp add: detect_motos_eq)

text \<open>
  Claim C7. \<^verbatim>\<open>detect_motos\<close> changes nothing but the log of the reader. When it returns
  a list, the reader after the call is the reader before it with one event appended per
  returned entity, the returned entities are entities of the input, as they were given, and
  a second call on the same entities returns the same list and appends as many events
  again. For a range of magnitude below \<open>2^1024\<close> it returns a list whenever \<^verbatim>\<open>np.sqrt\<close> is
  defined on every entity (every squared distance is below \<open>2^64\<close>), and raises
  \<^verbatim>\<open>TypeError\<close> otherwise; also then the reader is the reader before the call with
  events appended to its log, one per entity detected before the exception, and a second
  call ends in the same way. In every case the log does not get shorter.
\<close>

theorem detect_motos_frame:
  "(\<forall>detected. fst (detect_motos self ms clk) = Inr detected \<longrightarrow>
      snd (detect_motos self ms clk) =
        self\<lparr>detections := detections self @
           map (\<lambda>(i, m). detection_event self m (clk i)) (enumerate 0 detected)\<rparr>
      \<and> length (detections (snd (detect_motos self ms clk)))
           = length (detections self) + length detected
      \<and> set detected \<subseteq> set ms
      \<and> fst (detect_motos (snd (detect_motos self ms clk)) ms clk') = Inr detected
      \<and> length (detections (snd (detect_motos (snd (detect_motos self ms clk)) ms clk')))
           = length (detections self) + 2 * length detected)
   \<and> (\<bar>detection_range self\<bar> < 2 ^ 1024 \<and> list_all (sqrt_defined self) ms \<longrightarrow>
        (\<exists>detected. fst (detect_motos self ms clk) = Inr detected))
   \<and> (\<bar>detection_range self\<bar> < 2 ^ 1024 \<and> \<not> list_all (sqrt_defined self) ms \<longrightarrow>
        fst (detect_motos self ms clk) = Inl TypeError)
   \<and> snd (detect_motos self ms clk) =
        self\<lparr>detections := detections self @
           map (\<lambda>(i, m). detection_event self m (clk i)) (enumerate 0 (detected_entities self ms))\<rparr>
   \<and> set (detected_entities self ms) \<subseteq> set ms
   \<and> fst (detect_motos (snd (detect_motos self ms clk)) ms clk') = fst (detect_motos self ms clk)
   \<and> length (detections (snd (detect_motos (snd (detect_motos self ms clk)) ms clk')))
        = length (detections self) + 2 * length (detected_entities self ms)
   \<and> length (detections self) \<le> length (detections (snd (detect_motos self ms clk)))"
proof -
  have returned: "detected = detected_entities self ms"
    if "fst (detect_motos self ms clk) = Inr detected" for detected
    using that by (simp add: detect_motos_eq detected_entities_defined split: if_splits)
  have a: "snd (detect_motos self ms clk) =
        self\<lparr>detections := detections self @
           map (\<lambda>(i, m). detection_event self m (clk i)) (enumerate 0 (detected_entities self ms))\<rparr>"
    by (simp add: detect_motos_eq)
  have b: "set (detected_entities self ms) \<subseteq> set ms"
    by (rule detected_entities_subset)
  have c: "fst (detect_motos (snd (detect_motos self ms clk)) ms clk') = fst (detect_motos self ms clk)"
    by (simp add: detect_motos_twice)
  have d: "length (detections (snd (detect_motos (snd (detect_motos self ms clk)) ms clk')))
        = length (detections self) + 2 * length (detected_entities self ms)"
    by (simp add: detect_motos_twice)
  have e: "length (detections (snd (detect_motos self ms clk)))
        = length (detections self) + length (detected_entities self ms)"
    by (simp add: a)
  have f: "\<bar>detection_range self\<bar> < 2 ^ 1024 \<and> list_all (sqrt_defined self) ms \<longrightarrow>
        (\<exists>detected. fst (detect_motos self ms clk) = Inr detected)"
    by (simp add: detect_motos_eq)
  have g: "\<bar>detection_range self\<bar> < 2 ^ 1024 \<and> \<not> list_all (sqrt_defined self) ms \<longrightarrow>
        fst (detect_motos self ms clk) = Inl TypeError"
    by (simp add: detect_motos_eq)
  have h: "\<forall>detected. fst (detect_motos self ms clk) = Inr detected \<longrightarrow>
      snd (detect_motos self ms clk) =
        self\<lparr>detections := detections self @
           map (\<lambda>(i, m). detection_event self m (clk i)) (enumerate 0 detected)\<rparr>
      \<and> length (detections (snd (detect_motos self ms clk)))
           = length (detections self) + length detected
      \<and> set detected \<subseteq> set ms
      \<and> fst (detect_motos (snd (detect_motos self ms clk)) ms clk') = Inr detected
      \<and> length (detections (snd (detect_motos (snd (detect_motos self ms clk)) ms clk')))
           = length (detections self) + 2 * length detected"
  proof (intro allI impI)
    fix detected
    assume r: "fst (detect_motos self ms clk) = Inr detected"
    note eq = returned [OF r]
    from a b c d e r show "snd (detect_motos self ms clk) =
        self\<lparr>detections := detections self @
           map (\<lambda>(i, m). detection_event self m (clk i)) (enumerate 0 detected)\<rparr>
      \<and> length (detections (snd (detect_motos self ms clk)))
           = length (detections self) + length detected
      \<and> set detected \<subseteq> set ms
      \<and> fst (detect_motos (snd (detect_motos self ms clk)) ms clk') = Inr detected
      \<and> length (detections (snd (detect_motos (snd (detect_motos self ms clk)) ms clk')))
           = length (detections self) + 2 * length detected"
      unfolding eq by simp
  qed
  have i: "length (detections self) \<le> length (detections (snd (detect_motos self ms clk)))"
    using e by simp
  from h f g a b c d i show ?thesis by blast
qed

text \<open>One entity in range and one out of range: one event per call.\<close>

theorem detect_motos_frame_witness:
  "\<bar>detection_range example_reader\<bar> < 2 ^ 1024
   \<and> list_all (sqrt_defined example_reader) [example_moto 5 40, example_moto 50 40]
   \<and> detect_motos example_reader [example_moto 5 40, example_moto 50 40] example_clock
       = (Inr [example_moto 5 40],
          example_reader\<lparr>detections := [detection_event example_reader (example_moto 5 40) 1000]\<rparr>)
   \<and> set [example_moto 5 40] \<subseteq> set [example_moto 5 40, example_moto 50 40]
   \<and> length (detections (snd (detect_motos
         (snd (detect_motos example_reader [example_moto 5 40, example_moto 50 40] example_clock))
         [example_moto 5 40, example_moto 50 40] example_clock))) = 2"
proof -
  let ?ms = "[example_moto 5 40, example_moto 50 40]"
  have defined: "\<bar>detection_range example_reader\<bar> < 2 ^ 1024
      \<and> list_all (sqrt_defined example_reader) ?ms"
    by (simp add: example_sqrt_defined) (simp add: example_reader_def RFIDReader_init_def)
  have d: "fst (detect_motos example_reader ?ms example_clock) = Inr [example_moto 5 40]"
    by (simp add: detect_motos_eq example_in_range example_sqrt_defined)
  have l: "detections example_reader = []"
    by (simp add: example_reader_def RFIDReader_init_def)
  note frame = detect_motos_frame [of example_reader ?ms example_clock example_clock]
  from frame d have s: "snd (detect_motos example_reader ?ms example_clock) =
      example_reader\<lparr>detections := detections example_reader @
           map (\<lambda>(i, m). detection_event example_reader m (example_clock i))
               (enumerate 0 [example_moto 5 40])\<rparr>"
    by blast
  then have "snd (detect_motos example_reader ?ms example_clock) =
      example_reader\<lparr>detections := [detection_event example_reader (example_moto 5 40) 1000]\<rparr>"
    by (simp add: l example_clock_def)
  with d have b: "detect_motos example_reader ?ms example_clock
       = (Inr [example_moto 5 40],
          example_reader\<lparr>detections := [detection_event example_reader (example_moto 5 40) 1000]\<rparr>)"
    by (simp add: prod_eq_iff)
  from frame d have "length (detections (snd (detect_motos
         (snd (detect_motos example_reader ?ms example_clock)) ?ms example_clock)))
       = length (detections example_reader) + 2 * length [example_moto 5 40]"
    by blast
  then have c: "length (detections (snd (detect_motos
         (snd (detect_motos example_reader ?ms example_clock)) ?ms example_clock))) = 2"
    unfolding l by simp
  from defined b c show ?thesis by simp
qed

lemma detect_motos_range [simp]:
  "detection_range (snd (detect_motos self ms clk)) = detection_range self"
  by (simp add: detect_motos_eq)

lemma new_events_in_range:
  "list_all (\<lambda>d. det_distance d \<le> real_of_int (detection_range self))
     (map (\<lambda>(i, m). detection_event self m (clk i)) (enumerate n (detected_entities self ms)))"
  by (induction ms arbitrary: n)
     (simp_all add: detected_entities_simps in_range_iff detection_event_def)

lemma detect_motos_log_in_range:
  "log_in_range self \<Longrightarrow> log_in_range (snd (detect_motos self ms clk))"
  by (simp add: log_in_range_def detect_motos_eq new_events_in_range)

lemma detect_calls_log_in_range:
  "log_in_range self \<Longrightarrow>
     log_in_range (foldl (\<lambda>r (ms, clk). snd (detect_motos r ms clk)) self calls)"
proof (induction calls arbitrary: self)
  case Nil
  then show ?case by simp
next
  case (Cons c calls)
  obtain ms clk where c: "c = (ms, clk)" by (cases c)
  have "log_in_range (snd (detect_motos self ms clk))"
    using Cons.prems by (rule detect_motos_log_in_range)
  then show ?case using Cons.IH c by simp
qed

lemma recorded_distances:
  "list_all (sqrt_defined self) xs \<Longrightarrow>
     map (\<lambda>d. Inr (det_distance d)) (map (\<lambda>(i, m). detection_event self m (clk i)) (enumerate n xs))
       = map (distance self) xs"
  by (induction xs arbitrary: n) (simp_all add: detection_event_def distance_eq)

text \<open>
  Claim C10. A new reader has an empty log; when \<^verbatim>\<open>detect_motos\<close> returns, the events it
  appended carry the distances of the returned entities, the very values \<^verbatim>\<open>np.sqrt\<close> gave
  at the test; the events one call appends, whether it returns or raises, each carry a
  distance at most the range; so after any sequence of calls no event of the log has a
  recorded distance beyond the range of the reader.
\<close>

theorem detections_within_range:
  "log_in_range (RFIDReader_init rid x y rng color name)
   \<and> (\<forall>detected. fst (detect_motos self ms clk) = Inr detected \<longrightarrow>
        map (\<lambda>d. Inr (det_distance d))
            (drop (length (detections self)) (detections (snd (detect_motos self ms clk))))
          = map (distance self) detected)
   \<and> list_all (\<lambda>d. d \<le> real_of_int (detection_range self))
        (map det_distance (drop (length (detections self)) (detections (snd (detect_motos self ms clk)))))
   \<and> (log_in_range self \<longrightarrow>
        log_in_range (foldl (\<lambda>r (ms, clk). snd (detect_motos r ms clk)) self calls))"
proof -
  have a: "log_in_range (RFIDReader_init rid x y rng color name)"
    by (simp add: log_in_range_def RFIDReader_init_def)
  have b: "\<forall>detected. fst (detect_motos self ms clk) = Inr detected \<longrightarrow>
        map (\<lambda>d. Inr (det_distance d))
            (drop (length (detections self)) (detections (snd (detect_motos self ms clk))))
          = map (distance self) detected"
  proof (intro allI impI)
    fix detected
    assume "fst (detect_motos self ms clk) = Inr detected"
    then have defined: "list_all (sqrt_defined self) ms" and eq: "detected = filter (in_range self) ms"
      by (simp_all add: detect_motos_eq split: if_splits)
    have "list_all (sqrt_defined self) (filter (in_range self) ms)"
      using defined by (simp add: list_all_iff)
    then show "map (\<lambda>d. Inr (det_distance d))
            (drop (length (detections self)) (detections (snd (detect_motos self ms clk))))
          = map (distance self) detected"
      using recorded_distances [of self "filter (in_range self) ms" clk 0] defined
      by (simp add: detect_motos_eq detected_entities_defined eq)
  qed
  have c: "list_all (\<lambda>d. d \<le> real_of_int (detection_range self))
        (map det_distance (drop (length (detections self)) (detections (snd (detect_motos self ms clk)))))"
    using new_events_in_range [of self clk 0 ms]
    by (simp add: detect_motos_eq list_all_iff)
  from a b c detect_calls_log_in_range show ?thesis by blast
qed

text \<open>Two calls on the new reader at (5, 40): the log records the distances 0 and 15.\<close>

theorem detections_within_range_witness:
  "log_in_range example_reader
   \<and> fst (detect_motos example_reader [example_moto 5 40, example_moto 50 40] example_clock)
       = Inr [example_moto 5 40]
   \<and> log_in_range (foldl (\<lambda>r (ms, clk). snd (detect_motos r ms clk)) example_reader
        [([example_moto 5 40, example_moto 50 40], example_clock), ([example_moto 20 40], example_clock)])
   \<and> map det_distance (detections (foldl (\<lambda>r (ms, clk). snd (detect_motos r ms clk)) example_reader
        [([example_moto 5 40, example_moto 50 40], example_clock), ([example_moto 20 40], example_clock)]))
       = [0, 15]"
proof -
  let ?calls = "[([example_moto 5 40, example_moto 50 40], example_clock), ([example_moto 20 40], example_clock)]"
  note inv = detections_within_range [of 1 5 40 15 "''red''" None example_reader "[]" example_clock ?calls]
  from inv have a: "log_in_range example_reader"
    by (simp add: example_reader_def)
  with inv have b: "log_in_range (foldl (\<lambda>r (ms, clk). snd (detect_motos r ms clk)) example_reader ?calls)"
    by blast
  have d: "fst (detect_motos example_reader [example_moto 5 40, example_moto 50 40] example_clock)
       = Inr [example_moto 5 40]"
    by (simp add: detect_motos_eq example_in_range example_sqrt_defined)
  have c: "map det_distance (detections (foldl (\<lambda>r (ms, clk). snd (detect_motos r ms clk)) example_reader ?calls))
       = [0, 15]"
    by (simp add: detect_motos_eq detected_entities_simps example_in_range example_sqrt_defined
          detection_event_def example_distance_values)
       (simp add: example_reader_def RFIDReader_init_def)
  from a d b c show ?thesis by blast
qed

section \<open>Recent detections\<close>

lemma get_recent_detections_eq:
  "get_recent_detections self seconds now =
     (if cutoff_representable seconds now
      then Inr [d \<leftarrow> detections self. now - seconds * 1000000 < det_timestamp d]
      else Inl OverflowError)"
  by (simp add: get_recent_detections_def timedelta_seconds_def datetime_sub_def
        cutoff_representable_def)

text \<open>
  Claim C8, as stated, fails: on 2026-11-03 at 12:00:00 a window of \<open>10^11\<close> seconds reaches
  back before the least datetime, and \<^verbatim>\<open>get_recent_detections\<close> raises
  \<^verbatim>\<open>OverflowError\<close> instead of returning a list.
\<close>

theorem get_recent_detections_exact_counterexample:
  "get_recent_detections
     (example_reader\<lparr>detections := [detection_event example_reader (example_moto 5 40) example_now]\<rparr>)
     100000000000 example_now = Inl OverflowError"
  by (simp add: get_recent_detections_eq cutoff_representable_def example_now_def)

text \<open>
  Claim C8, amended. For every reader and every window, a whole number of seconds, for
  which the current time minus the window is a datetime (the window is between -999999999 and 999999999 days and the
  difference lies between the least and the greatest datetime),
  \<^verbatim>\<open>get_recent_detections\<close> returns exactly the events of the log whose timestamp is
  strictly later than the current time minus the window, in the order of the log; for
  every other window it raises \<^verbatim>\<open>OverflowError\<close>. Its only result is that list or that
  exception: the reader, and so the log, is not written.
\<close>

theorem get_recent_detections_exact:
  "(- 999999999 \<le> seconds div 86400 \<and> seconds div 86400 \<le> 999999999
      \<and> 0 \<le> now - seconds * 1000000 \<and> now - seconds * 1000000 \<le> DATETIME_MAX \<longrightarrow>
      get_recent_detections self seconds now
        = Inr [d \<leftarrow> detections self. now - seconds * 1000000 < det_timestamp d]
      \<and> subseq [d \<leftarrow> detections self. now - seconds * 1000000 < det_timestamp d] (detections self)
      \<and> set [d \<leftarrow> detections self. now - seconds * 1000000 < det_timestamp d]
          = {d. d \<in> set (detections self) \<and> now - seconds * 1000000 < det_timestamp d})
   \<and> (\<not> (- 999999999 \<le> seconds div 86400 \<and> seconds div 86400 \<le> 999999999
          \<and> 0 \<le> now - seconds * 1000000 \<and> now - seconds * 1000000 \<le> DATETIME_MAX) \<longrightarrow>
      get_recent_detections self seconds now = Inl OverflowError)"
proof -
  have "subseq [d \<leftarrow> detections self. now - seconds * 1000000 < det_timestamp d] (detections self)"
    by (rule subseq_filter_left)
  moreover have "set [d \<leftarrow> detections self. now - seconds * 1000000 < det_timestamp d]
          = {d. d \<in> set (detections self) \<and> now - seconds * 1000000 < det_timestamp d}"
    by auto
  ultimately show ?thesis
    unfolding get_recent_detections_eq cutoff_representable_def by simp
qed

text \<open>A window of 60 seconds on 2026-11-03 at 12:00:00: the event recorded exactly 60 seconds
  before is left out, the later one is returned.\<close>

theorem get_recent_detections_exact_witness:
  "- 999999999 \<le> (60::int) div 86400 \<and> (60::int) div 86400 \<le> 999999999
   \<and> 0 \<le> example_now - 60 * 1000000 \<and> example_now - 60 * 1000000 \<le> DATETIME_MAX
   \<and> get_recent_detections
       (example_reader\<lparr>detections :=
          [detection_event example_reader (example_moto 5 40) (example_now - 60000001),
           detection_event example_reader (example_moto 5 40) (example_now - 60000000),
           detection_event example_reader (example_moto 5 40) (example_now - 59999999)]\<rparr>) 60 example_now
       = Inr [detection_event example_reader (example_moto 5 40) (example_now - 59999999)]"
proof -
  have h: "- 999999999 \<le> (60::int) div 86400 \<and> (60::int) div 86400 \<le> 999999999
     \<and> 0 \<le> example_now - 60 * 1000000 \<and> example_now - 60 * 1000000 \<le> DATETIME_MAX"
    by (simp add: example_now_def DATETIME_MAX_def)
  with get_recent_detections_exact [of 60 example_now
     "example_reader\<lparr>detections :=
          [detection_event example_reader (example_moto 5 40) (example_now - 60000001),
           detection_event example_reader (example_moto 5 40) (example_now - 60000000),
           detection_event example_reader (example_moto 5 40) (example_now - 59999999)]\<rparr>"]
  have "get_recent_detections
       (example_reader\<lparr>detections :=
          [detection_event example_reader (example_moto 5 40) (example_now - 60000001),
           detection_event example_reader (example_moto 5 40) (example_now - 60000000),
           detection_event example_reader (example_moto 5 40) (example_now - 59999999)]\<rparr>) 60 example_now
       = Inr [detection_event example_reader (example_moto 5 40) (example_now - 59999999)]"
    by (simp add: detection_event_def)
  with h show ?thesis by blast
qed

section \<open>Entities\<close>

lemma record_position_fields [simp]:
  "fuel_level (record_position m now) = fuel_level m"
  "status (record_position m now) = status m"
  "moto_x (record_position m now) = moto_x m"
  "moto_y (record_position m now) = moto_y m"
  "moto_color (record_position m now) = moto_color m"
  "last_maintenance (record_position m now) = last_maintenance m"
  "movement_history (record_position m now) = movement_history m @ [snapshot_of m now]"
  by (simp_all add: record_position_def snapshot_of_def)

lemma update_color_fields [simp]:
  "fuel_level (update_color m) = fuel_level m"
  "status (update_color m) = status m"
  "moto_x (update_color m) = moto_x m"
  "moto_y (update_color m) = moto_y m"
  "last_maintenance (update_color m) = last_maintenance m"
  "movement_history (update_color m) = movement_history m"
  by (simp_all add: update_color_def)

lemma snapshot_of_cong:
  "moto_x m = moto_x m' \<Longrightarrow> moto_y m = moto_y m' \<Longrightarrow> status m = status m' \<Longrightarrow>
   fuel_level m = fuel_level m' \<Longrightarrow> snapshot_of m now = snapshot_of m' now"
  by (simp add: snapshot_of_def)

lemma update_fuel_level:
  "fuel_level (update_fuel m amount now) = max 0 (min 100 (fuel_level m + amount))"
  by (simp add: update_fuel_def)

lemma update_fuel_calls_bounds:
  "0 \<le> fuel_level m \<Longrightarrow> fuel_level m \<le> 100 \<Longrightarrow>
     0 \<le> fuel_level (foldl (\<lambda>m (amount, now). update_fuel m amount now) m calls)
     \<and> fuel_level (foldl (\<lambda>m (amount, now). update_fuel m amount now) m calls) \<le> 100"
proof (induction calls arbitrary: m)
  case Nil
  then show ?case by simp
next
  case (Cons c calls)
  obtain amount now where c: "c = (amount, now)" by (cases c)
  have "0 \<le> fuel_level (update_fuel m amount now)" "fuel_level (update_fuel m amount now) \<le> 100"
    by (simp_all add: update_fuel_level)
  then show ?case using Cons.IH [of "update_fuel m amount now"] c by simp
qed

lemma Moto_init_fuel_level:
  "fuel_level (Moto_init a u rnd now1 now2) = randint 10 100 (rnd 2)"
  by (simp add: Moto_init_def Let_def)

text \<open>
  Claim C2. The constructor draws the fuel level from 10 to 100, and from a fuel level
  between 0 and 100 every finite sequence of calls of \<^verbatim>\<open>update_fuel\<close>, whatever the
  amounts, ends with a fuel level between 0 and 100.
\<close>

theorem fuel_level_bounds:
  "10 \<le> fuel_level (Moto_init a u rnd now1 now2) \<and> fuel_level (Moto_init a u rnd now1 now2) \<le> 100
   \<and> (0 \<le> fuel_level m \<and> fuel_level m \<le> 100 \<longrightarrow>
        0 \<le> fuel_level (foldl (\<lambda>m (amount, now). update_fuel m amount now) m calls)
        \<and> fuel_level (foldl (\<lambda>m (amount, now). update_fuel m amount now) m calls) \<le> 100)"
  using randint_bounds [of 10 100 "rnd 2"] update_fuel_calls_bounds [of m calls]
  by (simp add: Moto_init_fuel_level)

text \<open>From fuel 10: adding 500 gives 100, removing 30 gives 70, removing 1000 gives 0.\<close>

theorem fuel_level_bounds_witness:
  "0 \<le> fuel_level (example_moto 5 40) \<and> fuel_level (example_moto 5 40) \<le> 100
   \<and> 0 \<le> fuel_level (foldl (\<lambda>m (amount, now). update_fuel m amount now) (example_moto 5 40)
               [(500, 1), (- 30, 2), (- 1000, 3)])
   \<and> fuel_level (foldl (\<lambda>m (amount, now). update_fuel m amount now) (example_moto 5 40)
               [(500, 1), (- 30, 2), (- 1000, 3)]) \<le> 100
   \<and> map (\<lambda>calls. fuel_level (foldl (\<lambda>m (amount, now). update_fuel m amount now) (example_moto 5 40) calls))
        [[(500, 1)], [(500, 1), (- 30, 2)], [(500, 1), (- 30, 2), (- 1000, 3)]] = [100, 70, 0]"
proof -
  have f: "fuel_level (example_moto 5 40) = 10" by (simp add: example_moto_def)
  then have h: "0 \<le> fuel_level (example_moto 5 40) \<and> fuel_level (example_moto 5 40) \<le> 100" by simp
  with fuel_level_bounds [of None "[]" "\<lambda>k. 0" 0 0 "example_moto 5 40" "[(500, 1), (- 30, 2), (- 1000, 3)]"]
  have b: "0 \<le> fuel_level (foldl (\<lambda>m (amount, now). update_fuel m amount now) (example_moto 5 40)
               [(500, 1), (- 30, 2), (- 1000, 3)])
   \<and> fuel_level (foldl (\<lambda>m (amount, now). update_fuel m amount now) (example_moto 5 40)
               [(500, 1), (- 30, 2), (- 1000, 3)]) \<le> 100"
    by blast
  have c: "map (\<lambda>calls. fuel_level (foldl (\<lambda>m (amount, now). update_fuel m amount now) (example_moto 5 40) calls))
        [[(500, 1)], [(500, 1), (- 30, 2)], [(500, 1), (- 30, 2), (- 1000, 3)]] = [100, 70, 0]"
    by (simp add: update_fuel_level f)
  from h b c show ?thesis by blast
qed

lemma move_position:
  "moto_x (move m dx dy now) = max 0 (min (moto_x m + dx) PATIO_WIDTH)"
  "moto_y (move m dx dy now) = max 0 (min (moto_y m + dy) PATIO_HEIGHT)"
  by (simp_all add: move_def Let_def)

lemma move_in_yard: "in_yard (move m dx dy now)"
  by (simp add: in_yard_def move_position PATIO_WIDTH_def PATIO_HEIGHT_def)

lemma move_calls_in_yard:
  "in_yard m \<Longrightarrow> in_yard (foldl (\<lambda>m (dx, dy, now). move m dx dy now) m calls)"
proof (induction calls arbitrary: m)
  case Nil
  then show ?case by simp
next
  case (Cons c calls)
  obtain dx dy now where c: "c = (dx, dy, now)" by (cases c)
  show ?case using Cons.IH [OF move_in_yard [of m dx dy now]] c by simp
qed

lemma Moto_init_position:
  "moto_x (Moto_init a u rnd now1 now2) =
     (if choice STATUS_CHOICES (rnd 1) = em_manutencao then 20 + randint 5 25 (rnd 4)
      else 20 + randint 5 55 (rnd 4))"
  "moto_y (Moto_init a u rnd now1 now2) =
     (if choice STATUS_CHOICES (rnd 1) = em_manutencao then 70 + randint 2 8 (rnd 5)
      else 10 + randint 5 55 (rnd 5))"
  by (simp_all add: Moto_init_def Let_def manutencao_def estacionamento_def)

lemma Moto_init_in_yard: "in_yard (Moto_init a u rnd now1 now2)"
  using randint_bounds [of 5 25 "rnd 4"] randint_bounds [of 5 55 "rnd 4"]
        randint_bounds [of 2 8 "rnd 5"] randint_bounds [of 5 55 "rnd 5"]
  by (simp add: in_yard_def Moto_init_position PATIO_WIDTH_def PATIO_HEIGHT_def)

text \<open>
  Claim C3. The position the constructor sets lies in the yard, from 0 to
  \<^verbatim>\<open>PATIO_WIDTH\<close> and from 0 to \<^verbatim>\<open>PATIO_HEIGHT\<close>; every call of \<^verbatim>\<open>move\<close> ends in the
  yard, and so does every finite sequence of calls from a position in the yard; moving an
  entity at x = 90 by 200 leaves it at x = 100, the width of the yard.
\<close>

theorem position_within_yard:
  "in_yard (Moto_init a u rnd now1 now2)
   \<and> in_yard (move m dx dy now)
   \<and> (in_yard m \<longrightarrow> in_yard (foldl (\<lambda>m (dx, dy, now). move m dx dy now) m calls))
   \<and> (moto_x m = 90 \<longrightarrow> moto_x (move m 200 0 now) = 100 \<and> PATIO_WIDTH = 100)"
  using Moto_init_in_yard [of a u rnd now1 now2] move_in_yard [of m dx dy now]
        move_calls_in_yard [of m calls]
  by (simp add: move_position PATIO_WIDTH_def)

text \<open>The entity at (90, 40): moved by (200, 0) it stands at (100, 40); moved again by
  (- 500, 90) it stands at (0, 80).\<close>

theorem position_within_yard_witness:
  "in_yard (example_moto 90 40)
   \<and> moto_x (example_moto 90 40) = 90
   \<and> moto_x (move (example_moto 90 40) 200 0 1000) = 100
   \<and> moto_y (move (example_moto 90 40) 200 0 1000) = 40
   \<and> in_yard (foldl (\<lambda>m (dx, dy, now). move m dx dy now) (example_moto 90 40)
        [(200, 0, 1000), (- 500, 90, 1001)])
   \<and> moto_x (foldl (\<lambda>m (dx, dy, now). move m dx dy now) (example_moto 90 40)
        [(200, 0, 1000), (- 500, 90, 1001)]) = 0
   \<and> moto_y (foldl (\<lambda>m (dx, dy, now). move m dx dy now) (example_moto 90 40)
        [(200, 0, 1000), (- 500, 90, 1001)]) = 80"
proof -
  note yard = position_within_yard [of None "[]" "\<lambda>k. 0" 0 0 "example_moto 90 40" 200 0 1000
                "[(200, 0, 1000), (- 500, 90, 1001)]"]
  have a: "in_yard (example_moto 90 40)"
    by (simp add: in_yard_def example_moto_def PATIO_WIDTH_def PATIO_HEIGHT_def)
  have b: "moto_x (example_moto 90 40) = 90" by (simp add: example_moto_def)
  from yard b have c: "moto_x (move (example_moto 90 40) 200 0 1000) = 100" by blast
  have d: "moto_y (move (example_moto 90 40) 200 0 1000) = 40"
    by (simp add: move_position example_moto_def PATIO_HEIGHT_def)
  from yard a have e: "in_yard (foldl (\<lambda>m (dx, dy, now). move m dx dy now) (example_moto 90 40)
        [(200, 0, 1000), (- 500, 90, 1001)])" by blast
  have f: "moto_x (foldl (\<lambda>m (dx, dy, now). move m dx dy now) (example_moto 90 40)
        [(200, 0, 1000), (- 500, 90, 1001)]) = 0"
    by (simp add: move_position example_moto_def PATIO_WIDTH_def)
  have g: "moto_y (foldl (\<lambda>m (dx, dy, now). move m dx dy now) (example_moto 90 40)
        [(200, 0, 1000), (- 500, 90, 1001)]) = 80"
    by (simp add: move_position example_moto_def PATIO_HEIGHT_def)
  from a b c d e f g show ?thesis by blast
qed

lemma update_status_fields:
  "status (update_status m new_status now) = new_status"
  "fuel_level (update_status m new_status now) = fuel_level m"
  "moto_x (update_status m new_status now) = moto_x m"
  "moto_y (update_status m new_status now) = moto_y m"
  "last_maintenance (update_status m new_status now) = last_maintenance m"
  by (simp_all add: update_status_def)

lemma update_status_color:
  "moto_color (update_status m new_status now) =
     (if new_status = disponivel then ''green''
      else if new_status = reservada then ''blue'' else ''orange'')"
  by (simp add: update_status_def update_color_def)

lemma update_status_history:
  "movement_history (update_status m new_status now)
     = movement_history m @ [snapshot_of (update_status m new_status now) now]"
  by (simp add: update_status_def snapshot_of_def)

lemma update_fuel_history:
  "movement_history (update_fuel m amount now)
     = movement_history m @ [snapshot_of (update_fuel m amount now) now]"
  by (simp add: update_fuel_def snapshot_of_def)

lemma perform_maintenance_eq:
  "perform_maintenance m now1 now2
     = update_status (m\<lparr>last_maintenance := now1, fuel_level := 100\<rparr>) disponivel now2"
  by (simp add: perform_maintenance_def Let_def)

text \<open>
  Claim C5. \<^verbatim>\<open>update_status\<close>, \<^verbatim>\<open>update_fuel\<close> and \<^verbatim>\<open>perform_maintenance\<close> each
  extend the history by exactly one snapshot, and that snapshot holds the time of the
  recording and the position, status and fuel level of the entity after the change.
\<close>

theorem history_one_snapshot_per_change:
  "movement_history (update_status m new_status now)
     = movement_history m @ [snapshot_of (update_status m new_status now) now]
   \<and> snapshot_of (update_status m new_status now) now
     = \<lparr>snap_timestamp = now, snap_x = moto_x m, snap_y = moto_y m,
        snap_status = new_status, snap_fuel_level = fuel_level m\<rparr>
   \<and> movement_history (update_fuel m amount now)
     = movement_history m @ [snapshot_of (update_fuel m amount now) now]
   \<and> snapshot_of (update_fuel m amount now) now
     = \<lparr>snap_timestamp = now, snap_x = moto_x m, snap_y = moto_y m,
        snap_status = status m, snap_fuel_level = max 0 (min 100 (fuel_level m + amount))\<rparr>
   \<and> movement_history (perform_maintenance m now1 now2)
     = movement_history m @ [snapshot_of (perform_maintenance m now1 now2) now2]
   \<and> snapshot_of (perform_maintenance m now1 now2) now2
     = \<lparr>snap_timestamp = now2, snap_x = moto_x m, snap_y = moto_y m,
        snap_status = disponivel, snap_fuel_level = 100\<rparr>"
proof -
  have a: "snapshot_of (update_status m new_status now) now
     = \<lparr>snap_timestamp = now, snap_x = moto_x m, snap_y = moto_y m,
        snap_status = new_status, snap_fuel_level = fuel_level m\<rparr>"
    by (simp add: snapshot_of_def update_status_fields)
  have b: "snapshot_of (update_fuel m amount now) now
     = \<lparr>snap_timestamp = now, snap_x = moto_x m, snap_y = moto_y m,
        snap_status = status m, snap_fuel_level = max 0 (min 100 (fuel_level m + amount))\<rparr>"
    by (simp add: snapshot_of_def update_fuel_def)
  have c: "movement_history (perform_maintenance m now1 now2)
     = movement_history m @ [snapshot_of (perform_maintenance m now1 now2) now2]"
    by (simp add: perform_maintenance_eq update_status_history)
  have d: "snapshot_of (perform_maintenance m now1 now2) now2
     = \<lparr>snap_timestamp = now2, snap_x = moto_x m, snap_y = moto_y m,
        snap_status = disponivel, snap_fuel_level = 100\<rparr>"
    by (simp add: snapshot_of_def perform_maintenance_eq update_status_fields)
  from update_status_history [of m new_status now] a update_fuel_history [of m amount now] b c d
  show ?thesis by blast
qed

text \<open>The entity in maintenance with fuel 10 and an empty history, after each operation.\<close>

theorem history_one_snapshot_per_change_witness:
  "movement_history (update_status (example_moto 5 40) reservada 1000)
     = [\<lparr>snap_timestamp = 1000, snap_x = 5, snap_y = 40, snap_status = reservada, snap_fuel_level = 10\<rparr>]
   \<and> movement_history (update_fuel (example_moto 5 40) (- 4) 1000)
     = [\<lparr>snap_timestamp = 1000, snap_x = 5, snap_y = 40, snap_status = em_manutencao, snap_fuel_level = 6\<rparr>]
   \<and> movement_history (perform_maintenance (example_moto 5 40) 1000 1001)
     = [\<lparr>snap_timestamp = 1001, snap_x = 5, snap_y = 40, snap_status = disponivel, snap_fuel_level = 100\<rparr>]"
proof -
  have e: "movement_history (example_moto 5 40) = []" "moto_x (example_moto 5 40) = 5"
    "moto_y (example_moto 5 40) = 40" "status (example_moto 5 40) = em_manutencao"
    "fuel_level (example_moto 5 40) = 10"
    by (simp_all add: example_moto_def)
  from history_one_snapshot_per_change [of "example_moto 5 40" reservada 1000 "- 4" 1000 1001]
  show ?thesis by (simp add: e)
qed

text \<open>
  Claim C6. Whatever the fuel level and the status of the entity before,
  \<^verbatim>\<open>perform_maintenance\<close> leaves it with fuel level 100, status \<^verbatim>\<open>'disponivel'\<close>
  (available), colour green, and the maintenance date set to the clock reading of the call.
\<close>

theorem perform_maintenance_result:
  "fuel_level (perform_maintenance m now1 now2) = 100
   \<and> status (perform_maintenance m now1 now2) = disponivel
   \<and> moto_color (perform_maintenance m now1 now2) = ''green''
   \<and> last_maintenance (perform_maintenance m now1 now2) = now1"
  by (simp add: perform_maintenance_eq update_status_fields update_status_color)

text \<open>The scenario of an entity in maintenance with fuel 10, serviced at time 2000.\<close>

theorem perform_maintenance_result_witness:
  "fuel_level (example_moto 5 40) = 10
   \<and> status (example_moto 5 40) = em_manutencao
   \<and> last_maintenance (example_moto 5 40) = 0
   \<and> fuel_level (perform_maintenance (example_moto 5 40) 2000 2001) = 100
   \<and> status (perform_maintenance (example_moto 5 40) 2000 2001) = disponivel
   \<and> moto_color (perform_maintenance (example_moto 5 40) 2000 2001) = ''green''
   \<and> last_maintenance (perform_maintenance (example_moto 5 40) 2000 2001) = 2000"
  using perform_maintenance_result [of "example_moto 5 40" 2000 2001]
  by (simp add: example_moto_def)

section \<open>Simulation\<close>

lemma update_visualization_motos:
  "motos (fst (update_visualization s n clk)) = motos s"
  by (simp add: update_visualization_def Let_def split_def)

lemma frames_motos:
  "motos (foldl (\<lambda>s (n, clk). fst (update_visualization s n clk)) s frames) = motos s"
proof (induction frames arbitrary: s)
  case Nil
  show ?case by simp
next
  case (Cons f frames)
  obtain n clk where f: "f = (n, clk)" by (cases f)
  show ?case using Cons.IH [of "fst (update_visualization s n clk)"] f
    by (simp add: update_visualization_motos)
qed

text \<open>
  Claim C9. A frame leaves the collection of entities as it was, and with it the position,
  the status and the fuel level of every entity; so does every sequence of frames. The
  only movement routine, \<^verbatim>\<open>simulate_movements\<close>, is not called by the frame and does
  nothing.
\<close>

theorem update_visualization_entities_unchanged:
  "motos (fst (update_visualization s n clk)) = motos s
   \<and> map (\<lambda>m. (moto_x m, moto_y m, status m, fuel_level m)) (motos (fst (update_visualization s n clk)))
       = map (\<lambda>m. (moto_x m, moto_y m, status m, fuel_level m)) (motos s)
   \<and> motos (foldl (\<lambda>s (n, clk). fst (update_visualization s n clk)) s frames) = motos s
   \<and> simulate_movements s = s"
  by (simp add: update_visualization_motos frames_motos simulate_movements_def)

text \<open>One frame of the simulation of two entities: the third, fifth and seventh reader each
  record one detection, and the entities are the same as before.\<close>

theorem update_visualization_entities_unchanged_witness:
  "motos (fst (update_visualization example_simulation 0 example_clock)) = motos example_simulation
   \<and> map (\<lambda>m. (moto_x m, moto_y m)) (motos example_simulation) = [(29, 20), (30, 78)]
   \<and> map (\<lambda>r. length (detections r)) (readers (fst (update_visualization example_simulation 0 example_clock)))
       = [0, 0, 1, 0, 1, 0, 1]
   \<and> (\<exists>summary. snd (update_visualization example_simulation 0 example_clock) = Inr summary
         \<and> sum_deteccoes summary = 3)"
proof -
  define m0 where "m0 = Moto_init None ''0a1b2c3d'' (\<lambda>k. k) (example_clock 0) (example_clock 1)"
  define m1 where "m1 = Moto_init None ''0a1b2c3d'' Suc (example_clock 2) (example_clock 3)"
  have plus: "(+) (0::nat) = (\<lambda>k. k)" "(+) (Suc 0) = Suc"
    by (simp_all add: fun_eq_iff)
  have ms: "motos example_simulation = [m0, m1]"
    by (simp add: example_simulation_def MottuPatioSimulation_init_def upt_conv_Cons plus m0_def m1_def)
  have st: "choice STATUS_CHOICES (Suc 0) = reservada" "choice STATUS_CHOICES (Suc (Suc 0)) = em_manutencao"
    by (simp_all add: choice_def STATUS_CHOICES_def)
  have xy: "moto_x m0 = 29" "moto_y m0 = 20" "moto_x m1 = 30" "moto_y m1 = 78"
    by (simp_all add: m0_def m1_def Moto_init_position st status_strings_distinct randint_def)
  then have pos: "map (\<lambda>m. (moto_x m, moto_y m)) (motos example_simulation) = [(29, 20), (30, 78)]"
    by (simp add: ms)
  have rs: "readers example_simulation =
      map (\<lambda>r. RFIDReader_init (cfg_id r) (cfg_x r) (cfg_y r) (cfg_range r) (cfg_color r) (cfg_name r)) READERS"
    by (simp add: example_simulation_def MottuPatioSimulation_init_def)
  have run: "map (\<lambda>r. length (detections r)) (readers (fst (update_visualization example_simulation 0 example_clock)))
       = [0, 0, 1, 0, 1, 0, 1]
     \<and> (\<exists>summary. snd (update_visualization example_simulation 0 example_clock) = Inr summary
         \<and> sum_deteccoes summary = 3)"
    by (simp add: update_visualization_def rs ms READERS_def RFIDReader_init_def
          detect_motos_eq detected_entities_simps in_range_code sqrt_defined_def
          squared_distance_def xy Let_def split_def)
  from update_visualization_entities_unchanged [of example_simulation 0 example_clock "[]"] pos run
  show ?thesis by blast
qed

lemma count_comprehension:
  "sum_list [1. m \<leftarrow> ms, P m] = int (length (filter P ms))"
  by (induction ms) simp_all

lemma fuel_brackets_partition:
  "length (filter (\<lambda>m. fuel_level m < 20) ms)
   + length (filter (\<lambda>m. 20 \<le> fuel_level m \<and> fuel_level m < 50) ms)
   + length (filter (\<lambda>m. 50 \<le> fuel_level m \<and> fuel_level m < 80) ms)
   + length (filter (\<lambda>m. fuel_level m \<ge> 80) ms) = length ms"
  by (induction ms) auto

lemma status_partition:
  "list_all (\<lambda>m. status m \<in> set STATUS_CHOICES) ms \<Longrightarrow>
   length (filter (\<lambda>m. status m = disponivel) ms)
   + length (filter (\<lambda>m. status m = reservada) ms)
   + length (filter (\<lambda>m. status m = em_manutencao) ms) = length ms"
  by (induction ms)
     (auto simp add: STATUS_CHOICES_def status_strings_distinct status_strings_distinct [symmetric])

lemma report_fuel_sum:
  "sum_list (map snd (fuel_levels (generate_report s))) = total_motos (generate_report s)"
  using fuel_brackets_partition [of "motos s"]
  by (simp add: generate_report_def count_comprehension)

lemma report_status_sum:
  "list_all (\<lambda>m. status m \<in> set STATUS_CHOICES) (motos s) \<Longrightarrow>
   sum_list (map snd (status_counts (generate_report s))) = total_motos (generate_report s)"
  using status_partition [of "motos s"]
  by (simp add: generate_report_def count_comprehension)

lemma Moto_init_status:
  "status (Moto_init a u rnd now1 now2) = choice STATUS_CHOICES (rnd 1)"
  by (simp add: Moto_init_def Let_def)

lemma list_all_update:
  "list_all P xs \<Longrightarrow> P v \<Longrightarrow> list_all P (xs[i := v])"
  by (induction xs arbitrary: i) (auto split: nat.splits)

lemma move_status: "status (move m dx dy now) = status m"
  by (simp add: move_def Let_def)

lemma update_fuel_status: "status (update_fuel m amount now) = status m"
  by (simp add: update_fuel_def)

lemma sim_state_statuses:
  "sim_state s \<Longrightarrow> list_all (\<lambda>m. status m \<in> set STATUS_CHOICES) (motos s)"
proof (induction rule: sim_state.induct)
  case (created num_motos uuids rnd clk)
  have "choice STATUS_CHOICES r \<in> set STATUS_CHOICES" for r
    by (rule choice_in_set) (simp add: STATUS_CHOICES_def)
  then show ?case
    by (simp add: MottuPatioSimulation_init_def list_all_iff Moto_init_status)
next
  case (frame s n clk)
  then show ?case by (simp add: update_visualization_motos)
next
  case (moved s i dx dy now)
  then have "status (motos s ! i) \<in> set STATUS_CHOICES"
    by (simp add: list_all_length)
  with moved show ?case
    by (simp add: list_all_update move_status)
next
  case (refuelled s i amount now)
  then have "status (motos s ! i) \<in> set STATUS_CHOICES"
    by (simp add: list_all_length)
  with refuelled show ?case
    by (simp add: list_all_update update_fuel_status)
next
  case (serviced s i now1 now2)
  have "status (perform_maintenance (motos s ! i) now1 now2) \<in> set STATUS_CHOICES"
    by (simp add: perform_maintenance_eq update_status_fields STATUS_CHOICES_def)
  with serviced show ?case by (simp add: list_all_update)
next
  case (status_set s i new_status now)
  then show ?case by (simp add: list_all_update update_status_fields)
qed

lemma report_tallies:
  "status_counts (generate_report s) =
     [(disponivel, int (length [m \<leftarrow> motos s. status m = disponivel])),
      (reservada, int (length [m \<leftarrow> motos s. status m = reservada])),
      (em_manutencao, int (length [m \<leftarrow> motos s. status m = em_manutencao]))]"
  "fuel_levels (generate_report s) =
     [(key_critico, int (length [m \<leftarrow> motos s. fuel_level m < 20])),
      (key_baixo, int (length [m \<leftarrow> motos s. 20 \<le> fuel_level m \<and> fuel_level m \<le> 49])),
      (key_medio, int (length [m \<leftarrow> motos s. 50 \<le> fuel_level m \<and> fuel_level m \<le> 79])),
      (key_alto, int (length [m \<leftarrow> motos s. 80 \<le> fuel_level m]))]"
proof -
  have "[m \<leftarrow> ms. 20 \<le> fuel_level m \<and> fuel_level m < 50]
          = [m \<leftarrow> ms. 20 \<le> fuel_level m \<and> fuel_level m \<le> 49]"
       "[m \<leftarrow> ms. 50 \<le> fuel_level m \<and> fuel_level m < 80]
          = [m \<leftarrow> ms. 50 \<le> fuel_level m \<and> fuel_level m \<le> 79]" for ms :: "moto list"
    by (rule filter_cong; auto)+
  then show "fuel_levels (generate_report s) =
     [(key_critico, int (length [m \<leftarrow> motos s. fuel_level m < 20])),
      (key_baixo, int (length [m \<leftarrow> motos s. 20 \<le> fuel_level m \<and> fuel_level m \<le> 49])),
      (key_medio, int (length [m \<leftarrow> motos s. 50 \<le> fuel_level m \<and> fuel_level m \<le> 79])),
      (key_alto, int (length [m \<leftarrow> motos s. 80 \<le> fuel_level m]))]"
    by (simp add: generate_report_def count_comprehension)
  show "status_counts (generate_report s) =
     [(disponivel, int (length [m \<leftarrow> motos s. status m = disponivel])),
      (reservada, int (length [m \<leftarrow> motos s. status m = reservada])),
      (em_manutencao, int (length [m \<leftarrow> motos s. status m = em_manutencao]))]"
    by (simp add: generate_report_def count_comprehension)
qed

text \<open>
  Claim C4. In every state of a simulation the report holds, under the three status strings
  and in this order, the numbers of entities that are available, reserved and in
  maintenance, and these three counts add up to the number of entities; it holds, under the
  four fuel labels, the numbers of entities with a fuel level below 20, from 20 to 49, from
  50 to 79, and 80 or above, and these four counts add up to the number of entities; the
  total of the report is the length of the collection.
\<close>

theorem report_counts_sum:
  "sim_state s \<Longrightarrow>
     status_counts (generate_report s) =
       [(disponivel, int (length [m \<leftarrow> motos s. status m = disponivel])),
        (reservada, int (length [m \<leftarrow> motos s. status m = reservada])),
        (em_manutencao, int (length [m \<leftarrow> motos s. status m = em_manutencao]))]
     \<and> fuel_levels (generate_report s) =
       [(key_critico, int (length [m \<leftarrow> motos s. fuel_level m < 20])),
        (key_baixo, int (length [m \<leftarrow> motos s. 20 \<le> fuel_level m \<and> fuel_level m \<le> 49])),
        (key_medio, int (length [m \<leftarrow> motos s. 50 \<le> fuel_level m \<and> fuel_level m \<le> 79])),
        (key_alto, int (length [m \<leftarrow> motos s. 80 \<le> fuel_level m]))]
     \<and> sum_list (map snd (status_counts (generate_report s))) = total_motos (generate_report s)
     \<and> sum_list (map snd (fuel_levels (generate_report s))) = total_motos (generate_report s)
     \<and> total_motos (generate_report s) = int (length (motos s))"
proof -
  assume "sim_state s"
  then have "list_all (\<lambda>m. status m \<in> set STATUS_CHOICES) (motos s)"
    by (rule sim_state_statuses)
  then have "sum_list (map snd (status_counts (generate_report s))) = total_motos (generate_report s)"
    by (rule report_status_sum)
  moreover have "total_motos (generate_report s) = int (length (motos s))"
    by (simp add: generate_report_def)
  ultimately show ?thesis using report_fuel_sum [of s] report_tallies [of s] by blast
qed

lemma example_simulation_motos:
  "map (\<lambda>m. (status m, fuel_level m)) (motos example_simulation)
     = [(reservada, 12), (em_manutencao, 13)]"
  by (simp add: example_simulation_def MottuPatioSimulation_init_def Moto_init_status
        Moto_init_fuel_level choice_def randint_def STATUS_CHOICES_def upt_conv_Cons)

text \<open>The simulation of two entities, as built by the constructor, after the first entity took
  50 units of fuel: one entity reserved with fuel 62, one in maintenance with fuel 13.\<close>

theorem report_counts_sum_witness:
  "sim_state refuelled_simulation
   \<and> map (\<lambda>m. (status m, fuel_level m)) (motos refuelled_simulation)
       = [(reservada, 62), (em_manutencao, 13)]
   \<and> status_counts (generate_report refuelled_simulation)
       = [(disponivel, 0), (reservada, 1), (em_manutencao, 1)]
   \<and> fuel_levels (generate_report refuelled_simulation)
       = [(key_critico, 1), (key_baixo, 0), (key_medio, 1), (key_alto, 0)]
   \<and> sum_list (map snd (status_counts (generate_report refuelled_simulation))) = 2
   \<and> sum_list (map snd (fuel_levels (generate_report refuelled_simulation))) = 2
   \<and> total_motos (generate_report refuelled_simulation) = 2"
proof -
  have "sim_state example_simulation"
    unfolding example_simulation_def by (rule sim_state.created)
  moreover have len: "length (motos example_simulation) = 2"
    by (simp add: example_simulation_def MottuPatioSimulation_init_def)
  ultimately have st: "sim_state refuelled_simulation"
    unfolding refuelled_simulation_def by (intro sim_state.refuelled) simp_all
  obtain m0 m1 where ms: "motos example_simulation = [m0, m1]"
    using len by (cases "motos example_simulation"; cases "tl (motos example_simulation)") auto
  with example_simulation_motos have f:
    "status m0 = reservada" "fuel_level m0 = 12" "status m1 = em_manutencao" "fuel_level m1 = 13"
    by simp_all
  have rm: "motos refuelled_simulation = [update_fuel m0 50 2000, m1]"
    by (simp add: refuelled_simulation_def ms)
  have sf: "map (\<lambda>m. (status m, fuel_level m)) (motos refuelled_simulation)
       = [(reservada, 62), (em_manutencao, 13)]"
    by (simp add: rm f update_fuel_status update_fuel_level)
  then have g: "status (update_fuel m0 50 2000) = reservada" "fuel_level (update_fuel m0 50 2000) = 62"
    by (simp_all add: rm)
  from report_counts_sum [OF st] st sf show ?thesis
    by (simp add: rm f g status_strings_distinct status_strings_distinct [symmetric])
qed

end
